theory Spec2Isabelle
  imports Main "HOL-Library.Sublist" "HOL-Library.AList" "HOL-Library.Multiset"
begin

section \<open>Python strings and the library functions the tap calls on them\<close>

text \<open>
  A Python \<open>str\<close> is a sequence of Unicode code points, so a string is a list of
  natural numbers. \<open>py\<close> embeds an ASCII literal.

  The classification of characters (\<open>\w\<close>, \<open>\s\<close>, \<open>str.lower\<close>, \<open>str.isupper\<close>,
  \<open>str.isprintable\<close>) belongs to Python's Unicode database, not to the tap. On the ASCII
  range it is written out below; beyond ASCII it is read from a \<open>unicode_db\<close> that every
  function using it takes as its first argument.
\<close>

type_synonym str = "nat list"

definition py :: "string \<Rightarrow> str" where
  "py s = map of_char s"

record unicode_db =
  uni_isalnum :: "nat \<Rightarrow> bool"
  uni_isspace :: "nat \<Rightarrow> bool"
  uni_isprintable :: "nat \<Rightarrow> bool"
  uni_islower :: "nat \<Rightarrow> bool"
  uni_isupper :: "nat \<Rightarrow> bool"
  uni_istitle :: "nat \<Rightarrow> bool"
  uni_lower :: "nat \<Rightarrow> nat list"

definition ascii_upper :: "nat \<Rightarrow> bool" where
  "ascii_upper c \<longleftrightarrow> 65 \<le> c \<and> c \<le> 90"

definition ascii_lower :: "nat \<Rightarrow> bool" where
  "ascii_lower c \<longleftrightarrow> 97 \<le> c \<and> c \<le> 122"

definition ascii_digit :: "nat \<Rightarrow> bool" where
  "ascii_digit c \<longleftrightarrow> 48 \<le> c \<and> c \<le> 57"

definition isalnum :: "unicode_db \<Rightarrow> nat \<Rightarrow> bool" where
  "isalnum U c =
     (if c < 128 then ascii_upper c \<or> ascii_lower c \<or> ascii_digit c else uni_isalnum U c)"

text \<open>\<open>\w\<close> of the \<open>re\<close> module on a \<open>str\<close> pattern: alphanumeric or the underscore.\<close>

definition re_word :: "unicode_db \<Rightarrow> nat \<Rightarrow> bool" where
  "re_word U c \<longleftrightarrow> isalnum U c \<or> c = 95"

text \<open>
  \<open>\s\<close> and \<open>str.isspace\<close>: on ASCII the characters 9 to 13, 28 to 31 and the space.
\<close>

definition isspace :: "unicode_db \<Rightarrow> nat \<Rightarrow> bool" where
  "isspace U c =
     (if c < 128 then (9 \<le> c \<and> c \<le> 13) \<or> (28 \<le> c \<and> c \<le> 32) else uni_isspace U c)"

definition isprintable_char :: "unicode_db \<Rightarrow> nat \<Rightarrow> bool" where
  "isprintable_char U c = (if c < 128 then 32 \<le> c \<and> c \<le> 126 else uni_isprintable U c)"

definition islower_char :: "unicode_db \<Rightarrow> nat \<Rightarrow> bool" where
  "islower_char U c = (if c < 128 then ascii_lower c else uni_islower U c)"

definition isupper_char :: "unicode_db \<Rightarrow> nat \<Rightarrow> bool" where
  "isupper_char U c = (if c < 128 then ascii_upper c else uni_isupper U c)"

definition istitle_char :: "unicode_db \<Rightarrow> nat \<Rightarrow> bool" where
  "istitle_char U c = (if c < 128 then False else uni_istitle U c)"

text \<open>
  \<open>str.lower\<close> maps every character to its lowercase form, which may be more than one
  code point.
\<close>

definition lower_char :: "unicode_db \<Rightarrow> nat \<Rightarrow> nat list" where
  "lower_char U c = (if c < 128 then (if ascii_upper c then [c + 32] else [c]) else uni_lower U c)"

definition str_lower :: "unicode_db \<Rightarrow> str \<Rightarrow> str" where
  "str_lower U s = concat (map (lower_char U) s)"

text \<open>
  \<open>str.isupper\<close>: no character is lowercase or titlecase, and at least one is uppercase.
\<close>

definition str_isupper :: "unicode_db \<Rightarrow> str \<Rightarrow> bool" where
  "str_isupper U s \<longleftrightarrow>
     (\<forall>c \<in> set s. \<not> islower_char U c \<and> \<not> istitle_char U c) \<and> (\<exists>c \<in> set s. isupper_char U c)"

text \<open>\<open>re.sub(r"[^\w\s]", "", s)\<close> deletes every character that is neither word nor space.\<close>

definition sub_nonword_nonspace :: "unicode_db \<Rightarrow> str \<Rightarrow> str" where
  "sub_nonword_nonspace U s = filter (\<lambda>c. re_word U c \<or> isspace U c) s"

text \<open>\<open>re.sub(r"\s+", "_", s)\<close> replaces every maximal run of whitespace by one underscore.\<close>

function sub_spaces :: "unicode_db \<Rightarrow> str \<Rightarrow> str" where
  "sub_spaces U [] = []"
| "sub_spaces U (c # cs) =
     (if isspace U c then 95 # sub_spaces U (dropWhile (isspace U) cs)
      else c # sub_spaces U cs)"
  by pat_completeness auto
termination
  by (relation "measure (\<lambda>(U, s). length s)")
     (auto simp: length_dropWhile_le le_imp_less_Suc)

text \<open>\<open>re.sub(r'\W+', '', s)\<close> deletes every non-word character.\<close>

definition sub_nonword :: "unicode_db \<Rightarrow> str \<Rightarrow> str" where
  "sub_nonword U s = filter (re_word U) s"

text \<open>\<open>str.endswith\<close>, \<open>str.startswith\<close>, \<open>str.join\<close> and \<open>str.split\<close>.\<close>

definition endswith :: "str \<Rightarrow> str \<Rightarrow> bool" where
  "endswith s suf = suffix suf s"

definition startswith :: "str \<Rightarrow> str \<Rightarrow> bool" where
  "startswith s pre = prefix pre s"

fun join :: "str \<Rightarrow> str list \<Rightarrow> str" where
  "join sep [] = []"
| "join sep [x] = x"
| "join sep (x # y # ys) = x @ sep @ join sep (y # ys)"

text \<open>\<open>s.split(c)\<close> for a separator of one character: never the empty list.\<close>

fun split_char :: "nat \<Rightarrow> str \<Rightarrow> str list" where
  "split_char sep [] = [[]]"
| "split_char sep (c # cs) =
     (if c = sep then [] # split_char sep cs
      else (case split_char sep cs of
              [] \<Rightarrow> [[c]]
            | p # ps \<Rightarrow> (c # p) # ps))"

text \<open>
  \<open>s.split(sep, 1)\<close> for a non-empty separator: \<open>None\<close> when \<open>sep\<close> does not occur
  (Python returns the one-element list), otherwise the text before and after the first
  occurrence.
\<close>

fun split_once :: "str \<Rightarrow> str \<Rightarrow> (str \<times> str) option" where
  "split_once sep [] = None"
| "split_once sep (c # cs) =
     (if prefix sep (c # cs) then Some ([], drop (length sep) (c # cs))
      else map_option (\<lambda>(a, b). (c # a, b)) (split_once sep cs))"

section \<open>Errors\<close>

text \<open>
  The exceptions the modelled code raises or lets through. \<open>JSONDecodeError\<close> is a subclass
  of \<open>ValueError\<close>, which matters to the handler in \<open>get_row_iterator\<close>.
\<close>

datatype error =
    ValueError | TypeError | JSONDecodeError | AttributeError | KeyError
  | StopIteration | UnboundLocalError | ZeroDivisionError | BrokenPipeError
  | InvalidFormatError | ReError | OSError

definition is_ValueError_or_TypeError :: "error \<Rightarrow> bool" where
  "is_ValueError_or_TypeError e \<longleftrightarrow> e = ValueError \<or> e = JSONDecodeError \<or> e = TypeError"

section \<open>JSON values and rows\<close>

text \<open>
  A parsed JSON value; a dictionary is an association list in insertion order, updated
  with \<open>AList.update\<close> as \<open>d[k] = v\<close> does. Numbers are never inspected by the code
  modelled here.
\<close>

datatype json =
    JNull | JBool bool | JNum int | JStr str | JList "json list" | JObj "(str \<times> json) list"

text \<open>
  What an iterator produces: the rows it yields and, when it stops with an exception
  instead of running out, that exception.
\<close>

type_synonym 'a stream = "'a list \<times> error option"

section \<open>json\_handler.py and jsonl\_handler.py: field names\<close>

text \<open>\<open>if key is None: key = "_smart_extra"\<close>.\<close>

definition smart_extra :: "str option \<Rightarrow> str" where
  "smart_extra key = (case key of None \<Rightarrow> py ''_smart_extra'' | Some k \<Rightarrow> k)"

text \<open>The two substitutions both handlers apply to a key.\<close>

definition formatted_key :: "unicode_db \<Rightarrow> str \<Rightarrow> str" where
  "formatted_key U key = sub_spaces U (sub_nonword_nonspace U key)"

text \<open>json: \<open>to_return[formatted_key.lower()] = value\<close>.\<close>

definition json_key :: "unicode_db \<Rightarrow> str option \<Rightarrow> str" where
  "json_key U key = str_lower U (formatted_key U (smart_extra key))"

text \<open>jsonl: \<open>if formatted_key.isupper(): formatted_key = formatted_key.lower()\<close>.\<close>

definition jsonl_key :: "unicode_db \<Rightarrow> str option \<Rightarrow> str" where
  "jsonl_key U key =
     (let fk = formatted_key U (smart_extra key)
      in if str_isupper U fk then str_lower U fk else fk)"

definition json_to_return :: "unicode_db \<Rightarrow> (str \<times> json) list \<Rightarrow> (str \<times> json) list" where
  "json_to_return U items =
     foldl (\<lambda>to_return (key, v). AList.update (json_key U (Some key)) v to_return) [] items"

definition jsonl_to_return :: "unicode_db \<Rightarrow> (str \<times> json) list \<Rightarrow> (str \<times> json) list" where
  "jsonl_to_return U items =
     foldl (\<lambda>to_return (key, v). AList.update (jsonl_key U (Some key)) v to_return) [] items"

text \<open>
  \<open>json_handler.generator_wrapper\<close>. An element that is a list has its members yielded as
  they are; the inner loop reuses the name \<open>obj\<close>, so afterwards \<open>obj\<close> is the last member
  (or still the list, when it is empty), and \<open>obj.items()\<close> is called on that.
\<close>

fun json_generator_wrapper :: "unicode_db \<Rightarrow> json list \<Rightarrow> json stream" where
  "json_generator_wrapper U [] = ([], None)"
| "json_generator_wrapper U (obj # root_iterator) =
     (let (yielded, obj') =
        (case obj of
           JList my_list \<Rightarrow> (my_list, if my_list = [] then obj else last my_list)
         | _ \<Rightarrow> ([], obj))
      in case obj' of
           JObj items \<Rightarrow>
             (let (rows, e) = json_generator_wrapper U root_iterator
              in (yielded @ JObj (json_to_return U items) # rows, e))
         | _ \<Rightarrow> (yielded, Some AttributeError))"

section \<open>Table specifications and the outside world\<close>

text \<open>
  A table specification is a dictionary; the keys the code reads with \<open>.get\<close> or guards
  with \<open>in\<close> are optional fields. Crawl sources and the entries \<open>config_by_crawl\<close> builds
  are dictionaries of the same shape.
\<close>

record table_spec =
  path :: str
  name :: str
  pattern :: str
  search_prefix :: "str option"
  format :: "str option"
  encoding :: "str option"
  universal_newlines :: "bool option"
  skip_initial :: "int option"
  invalid_format_action :: "str option"
  skip_empty_rows :: "bool option"
  start_date :: "str option"
  max_records_per_run :: "int option"
  max_sampled_files :: "int option"
  max_sampling_read :: "int option"
  prefer_number_vs_integer :: "bool option"
  prefer_schema_as_string :: "bool option"
  key_properties :: "str list"
  delimiter :: "str option"

text \<open>\<open>d.get(k, default)\<close>.\<close>

definition get_default :: "'a \<Rightarrow> 'a option \<Rightarrow> 'a" where
  "get_default d v = (case v of None \<Rightarrow> d | Some x \<Rightarrow> x)"

text \<open>
  What a protocol adapter lists (\<open>{'Key': ..., 'LastModified': ...}\<close>) and what
  \<open>get_matching_objects\<close> returns (\<open>{'key': ..., 'last_modified': ...}\<close>). Modification
  times are timezone-aware datetimes, a linear order: seconds since the epoch.
\<close>

record raw_object =
  Key :: str
  LastModified :: int

record discovered_object =
  key :: str
  last_modified :: int

text \<open>
  The library functions whose results the code depends on: \<open>re.compile\<close> (\<open>None\<close> for a
  pattern it rejects; otherwise the \<open>search\<close> method of the compiled pattern),
  \<open>json.loads\<close>, \<open>dateutil.parser.parse\<close>, \<open>datetime.isoformat\<close>, the scheme found by
  \<open>urlparse\<close> and \<open>urlunparse(parsed._replace(path="/"))\<close>.
\<close>

record library =
  re_compile :: "str \<Rightarrow> (str \<Rightarrow> bool) option"
  json_loads :: "str \<Rightarrow> json option"
  dateutil_parse :: "str \<Rightarrow> int option"
  isoformat :: "int \<Rightarrow> str"
  urlparse_scheme :: "str \<Rightarrow> str"
  urlunparse_root :: "str \<Rightarrow> str"

text \<open>
  The protocol adapters: what each listing returns for a bucket (or URI) and a search
  prefix, or the exception it raises. For IMAP, \<open>get_imap_fs\<close> gives the exception of a
  failed connection and \<open>imap_ls\<close> the listing since a date, already filtered by prefix.
\<close>

record backends =
  list_files_in_s3_bucket :: "str \<Rightarrow> str option \<Rightarrow> error + raw_object list"
  list_files_in_local_bucket :: "str \<Rightarrow> str option \<Rightarrow> error + raw_object list"
  list_files_in_SSH_bucket :: "str \<Rightarrow> str option \<Rightarrow> error + raw_object list"
  list_files_in_ftp_server :: "str \<Rightarrow> str option \<Rightarrow> error + raw_object list"
  list_files_in_gs_bucket :: "str \<Rightarrow> str option \<Rightarrow> error + raw_object list"
  convert_URL_to_file_list :: "table_spec \<Rightarrow> error + raw_object list"
  list_files_in_azure_bucket :: "str \<Rightarrow> str option \<Rightarrow> error + raw_object list"
  get_imap_fs :: "str \<Rightarrow> error option"
  imap_ls :: "str \<Rightarrow> str option \<Rightarrow> int \<Rightarrow> error + raw_object list"

text \<open>
  A stream handle: its decoded content and the read position.
\<close>

record reader =
  content :: str
  pos :: nat

definition reader_read :: "nat \<Rightarrow> reader \<Rightarrow> str \<times> reader" where
  "reader_read n r =
     (take n (drop (pos r) (content r)), r\<lparr>pos := min (length (content r)) (pos r + n)\<rparr>)"

definition reader_seek :: "nat \<Rightarrow> reader \<Rightarrow> reader" where
  "reader_seek p r = r\<lparr>pos := p\<rparr>"

text \<open>
  The collaborators. \<open>load_config\<close> is what \<open>utils.parse_args([]).config\<close> raises, if
  anything; \<open>transport_params\<close> what building the parameters of a supported protocol
  raises (a private key that does not parse, a missing environment variable or user
  name). \<open>open_uri\<close> is \<open>smart_open.open\<close> (arguments: uri, universal\_newlines, newline,
  open\_mode, encoding; the result is the decoded content) and \<open>imap_open\<close> is
  \<open>get_imap_fs(netloc)\<close> followed by \<open>fs.open\<close> (arguments: uri, path, open\_mode, newline,
  encoding). Then the row iterators of the four format handlers and
  \<open>conversion.convert_row\<close>.
\<close>

record 'schema collaborators =
  load_config :: "error option"
  transport_params :: "str \<Rightarrow> error option"
  open_uri :: "str \<Rightarrow> bool \<Rightarrow> str option \<Rightarrow> str \<Rightarrow> str option \<Rightarrow> error + str"
  imap_open :: "str \<Rightarrow> str \<Rightarrow> str \<Rightarrow> str option \<Rightarrow> str option \<Rightarrow> error + str"
  csv_get_row_iterator :: "table_spec \<Rightarrow> reader \<Rightarrow> error + json stream"
  excel_get_legacy_row_iterator :: "table_spec \<Rightarrow> reader \<Rightarrow> error + json stream"
  excel_get_row_iterator :: "table_spec \<Rightarrow> reader \<Rightarrow> error + json stream"
  json_get_row_iterator :: "table_spec \<Rightarrow> reader \<Rightarrow> error + json stream"
  jsonl_get_row_iterator :: "table_spec \<Rightarrow> reader \<Rightarrow> error + json stream"
  convert_row :: "json \<Rightarrow> 'schema \<Rightarrow> error + (str \<times> json) list"

text \<open>
  \<open>jsonl_handler.generator_wrapper\<close>. \<open>obj\<close> is a line of text, so \<open>obj.values()\<close> raises
  as soon as \<open>skip_empty_rows\<close> lets the \<open>and\<close> reach it.
\<close>

fun jsonl_generator_wrapper ::
  "unicode_db \<Rightarrow> library \<Rightarrow> str list \<Rightarrow> table_spec \<Rightarrow> json stream" where
  "jsonl_generator_wrapper U L [] ts = ([], None)"
| "jsonl_generator_wrapper U L (obj # root_iterator) ts =
     (case json_loads L obj of
        None \<Rightarrow> ([], Some JSONDecodeError)
      | Some json_obj \<Rightarrow>
          if get_default False (skip_empty_rows ts) then ([], Some AttributeError)
          else (case json_obj of
                  JObj items \<Rightarrow>
                    (let (rows, e) = jsonl_generator_wrapper U L root_iterator ts
                     in (JObj (jsonl_to_return U items) # rows, e))
                | _ \<Rightarrow> ([], Some AttributeError)))"

section \<open>format\_handler.py\<close>

text \<open>
  \<open>get_transport_params\<close>: the configuration is read first; the protocols \<open>sftp\<close>,
  \<open>azure\<close>, \<open>gs\<close> and \<open>imap\<close> have parameters, every other protocol raises
  \<open>ValueError\<close>.
\<close>

definition get_transport_params :: "'s collaborators \<Rightarrow> str \<Rightarrow> error + unit" where
  "get_transport_params C protocol =
     (case load_config C of
        Some e \<Rightarrow> Inl e
      | None \<Rightarrow>
          if protocol = py ''sftp'' \<or> protocol = py ''azure'' \<or> protocol = py ''gs''
             \<or> protocol = py ''imap''
          then (case transport_params C protocol of Some e \<Rightarrow> Inl e | None \<Rightarrow> Inr ())
          else Inl ValueError)"

text \<open>\<open>s.lstrip(chars)\<close> drops the leading characters that occur in \<open>chars\<close>.\<close>

definition lstrip_chars :: "str \<Rightarrow> str \<Rightarrow> str" where
  "lstrip_chars chars s = dropWhile (\<lambda>c. c \<in> set chars) s"

text \<open>
  \<open>get_streamreader\<close>: a mode containing \<open>b\<close> undefines the encoding. An \<open>imap\<close> URI is
  opened through the mailbox; for any other URI \<open>get_transport_params\<close> is evaluated as
  an argument of \<open>smart_open.open\<close>, so it raises before anything is opened. The handle
  opens at position 0.
\<close>

definition get_streamreader ::
  "library \<Rightarrow> 's collaborators \<Rightarrow> str \<Rightarrow> bool \<Rightarrow> str option \<Rightarrow> str \<Rightarrow> str option
     \<Rightarrow> error + reader" where
  "get_streamreader L C uri un newline open_mode enc =
     (let enc' = (if 98 \<in> set open_mode then None else enc)
      in if urlparse_scheme L uri = py ''imap'' then
           (case imap_open C uri (lstrip_chars (urlunparse_root L uri) uri) open_mode newline
                   enc' of
              Inl e \<Rightarrow> Inl e
            | Inr body \<Rightarrow> Inr \<lparr>content = body, pos = 0\<rparr>)
         else
           (case get_transport_params C (urlparse_scheme L uri) of
              Inl e \<Rightarrow> Inl e
            | Inr u \<Rightarrow>
                (case open_uri C uri un newline open_mode enc' of
                   Inl e \<Rightarrow> Inl e
                 | Inr body \<Rightarrow> Inr \<lparr>content = body, pos = 0\<rparr>)))"

definition lstrip :: "unicode_db \<Rightarrow> str \<Rightarrow> str" where
  "lstrip U s = dropWhile (isspace U) s"

definition str_isprintable :: "unicode_db \<Rightarrow> str \<Rightarrow> bool" where
  "str_isprintable U s = list_all (isprintable_char U) s"

text \<open>
  The branch of \<open>get_row_iterator\<close> taken when \<open>format\<close> is absent or \<open>detect\<close>. \<open>buf[0]\<close>
  is the one-character string \<open>[hd buf]\<close>. Both failures raise \<open>ValueError\<close>.
\<close>

definition detect_format ::
  "unicode_db \<Rightarrow> library \<Rightarrow> 's collaborators \<Rightarrow> bool \<Rightarrow> str \<Rightarrow> str \<Rightarrow> error + str" where
  "detect_format U L C un enc uri =
     (let lowered_uri = str_lower U uri
      in if endswith lowered_uri (py ''.xlsx'') \<or> endswith lowered_uri (py ''.xls'')
         then Inr (py ''excel'')
         else if endswith lowered_uri (py ''.json'') \<or> endswith lowered_uri (py ''.js'')
         then Inr (py ''json'')
         else if endswith lowered_uri (py ''.jsonl'') then Inr (py ''jsonl'')
         else if endswith lowered_uri (py ''.csv'') then Inr (py ''csv'')
         else (case get_streamreader L C uri un (Some []) (py ''r'') (Some enc) of
                 Inl e \<Rightarrow> Inl e
               | Inr r \<Rightarrow>
                   (let (buf, r1) = reader_read 10 r;
                        r2 = reader_seek 0 r1
                    in if length buf > 0
                       then if lstrip U [hd buf] = py ''['' then Inr (py ''json'')
                            else if str_isprintable U [hd buf] then Inr (py ''csv'')
                            else Inl ValueError
                       else Inl ValueError)))"

text \<open>
  The \<open>try\<close> block of \<open>get_row_iterator\<close>: \<open>None\<close> when no branch binds \<open>iterator\<close>.
\<close>

definition open_iterator ::
  "unicode_db \<Rightarrow> library \<Rightarrow> 's collaborators \<Rightarrow> table_spec \<Rightarrow> bool \<Rightarrow> str \<Rightarrow> str \<Rightarrow> str
     \<Rightarrow> error + json stream option" where
  "open_iterator U L C ts un enc uri fmt =
     (if fmt = py ''csv'' then
        (case get_streamreader L C uri un (Some []) (py ''r'') (Some enc) of
           Inl e \<Rightarrow> Inl e
         | Inr r \<Rightarrow> map_sum id Some (csv_get_row_iterator C ts r))
      else if fmt = py ''excel'' then
        (if endswith (str_lower U uri) (py ''.xls'') then
           (case get_streamreader L C uri un None (py ''rb'') (Some (py ''utf-8'')) of
              Inl e \<Rightarrow> Inl e
            | Inr r \<Rightarrow> map_sum id Some (excel_get_legacy_row_iterator C ts r))
         else
           (case get_streamreader L C uri un None (py ''rb'') None of
              Inl e \<Rightarrow> Inl e
            | Inr r \<Rightarrow> map_sum id Some (excel_get_row_iterator C ts r)))
      else if fmt = py ''json'' then
        (case get_streamreader L C uri un (Some []) (py ''r'') (Some enc) of
           Inl e \<Rightarrow> Inl e
         | Inr r \<Rightarrow> map_sum id Some (json_get_row_iterator C ts r))
      else if fmt = py ''jsonl'' then
        (case get_streamreader L C uri un (Some []) (py ''r'') (Some enc) of
           Inl e \<Rightarrow> Inl e
         | Inr r \<Rightarrow> map_sum id Some (jsonl_get_row_iterator C ts r))
      else Inr None)"

text \<open>
  \<open>for _ in range(skip_initial): next(iterator)\<close>: \<open>next\<close> on an iterator that has run out
  raises \<open>StopIteration\<close>, and on one that fails, its exception.
\<close>

fun skip_rows :: "nat \<Rightarrow> 'a stream \<Rightarrow> error + 'a stream" where
  "skip_rows 0 s = Inr s"
| "skip_rows (Suc k) ([], None) = Inl StopIteration"
| "skip_rows (Suc k) ([], Some e) = Inl e"
| "skip_rows (Suc k) (row # rows, e) = skip_rows k (rows, e)"

definition get_row_iterator ::
  "unicode_db \<Rightarrow> library \<Rightarrow> 's collaborators \<Rightarrow> table_spec \<Rightarrow> str \<Rightarrow> error + json stream" where
  "get_row_iterator U L C ts uri =
     (let un = get_default True (universal_newlines ts);
          enc = get_default (py ''utf-8'') (encoding ts);
          skip = get_default 0 (skip_initial ts)
      in case (case format ts of
                 None \<Rightarrow> detect_format U L C un enc uri
               | Some f \<Rightarrow> if f = py ''detect'' then detect_format U L C un enc uri else Inr f) of
           Inl e \<Rightarrow> Inl e
         | Inr fmt \<Rightarrow>
             (case open_iterator U L C ts un enc uri fmt of
                Inl e \<Rightarrow> Inl (if is_ValueError_or_TypeError e then InvalidFormatError else e)
              | Inr None \<Rightarrow> Inl UnboundLocalError
              | Inr (Some iterator) \<Rightarrow>
                  if fmt \<noteq> py ''excel'' then skip_rows (nat skip) iterator
                  else Inr iterator))"

section \<open>file\_utils.py: reading files\<close>

definition resolve_target_uri :: "library \<Rightarrow> table_spec \<Rightarrow> str \<Rightarrow> str" where
  "resolve_target_uri L ts target_filename =
     (if urlparse_scheme L (path ts) = py ''imap''
      then urlunparse_root L (path ts) @ target_filename
      else path ts @ py ''/'' @ target_filename)"

text \<open>
  \<open>re.sub(pre + '.*?@', "********", s, flags=re.DOTALL)\<close> for a literal \<open>pre\<close>: the lazy
  match runs from an occurrence of \<open>pre\<close> to the first \<open>@\<close> after it.
\<close>

function sub_credentials :: "str \<Rightarrow> str \<Rightarrow> str" where
  "sub_credentials pre [] = []"
| "sub_credentials pre (c # cs) =
     (if prefix pre (c # cs) \<and> 64 \<in> set (drop (length pre) (c # cs))
      then py ''********''
           @ sub_credentials pre (tl (dropWhile (\<lambda>d. d \<noteq> 64) (drop (length pre) (c # cs))))
      else c # sub_credentials pre cs)"
  by pat_completeness auto
termination
proof (relation "measure (\<lambda>(pre, s). length s)")
  fix pre :: str and c :: nat and cs :: str
  assume "prefix pre (c # cs) \<and> 64 \<in> set (drop (length pre) (c # cs))"
  then have ne: "dropWhile (\<lambda>d. d \<noteq> 64) (drop (length pre) (c # cs)) \<noteq> []"
    by auto
  have "length (dropWhile (\<lambda>d. d \<noteq> 64) (drop (length pre) (c # cs))) \<le> length (c # cs)"
    by (rule order_trans [OF length_dropWhile_le]) simp
  with ne have "length (tl (dropWhile (\<lambda>d. d \<noteq> 64) (drop (length pre) (c # cs)))) < length (c # cs)"
    by (cases "dropWhile (\<lambda>d. d \<noteq> 64) (drop (length pre) (c # cs))") auto
  then show "((pre, tl (dropWhile (\<lambda>d. d \<noteq> 64) (drop (length pre) (c # cs)))), (pre, c # cs))
               \<in> measure (\<lambda>(pre, s). length s)"
    by simp
qed auto

definition hide_credentials :: "str \<Rightarrow> str" where
  "hide_credentials p =
     (if startswith p (py ''sftp'') then sub_credentials (py ''sftp://'') p
      else if startswith p (py ''ftp'') then sub_credentials (py ''ftp://'') p
      else p)"

text \<open>
  The record sink behind \<open>singer.write_record\<close>: what has been written and, when the pipe
  to the loader breaks, after how many records.
\<close>

record sink =
  written :: "(str \<times> (str \<times> json) list) list"
  pipe_capacity :: "nat option"

definition singer_write_record :: "sink \<Rightarrow> str \<Rightarrow> (str \<times> json) list \<Rightarrow> error + sink" where
  "singer_write_record snk stream_name rec =
     (case pipe_capacity snk of
        None \<Rightarrow> Inr (snk\<lparr>written := written snk @ [(stream_name, rec)]\<rparr>)
      | Some n \<Rightarrow>
          if n \<le> length (written snk) then Inl BrokenPipeError
          else Inr (snk\<lparr>written := written snk @ [(stream_name, rec)]\<rparr>))"

text \<open>\<open>{**converted, **metadata}\<close>.\<close>

definition dict_merge :: "(str \<times> json) list \<Rightarrow> (str \<times> json) list \<Rightarrow> (str \<times> json) list" where
  "dict_merge d md = foldl (\<lambda>acc (k, v). AList.update k v acc) d md"

text \<open>The dictionary \<open>metadata\<close> that \<open>write_file\<close> builds for a row.\<close>

definition source_metadata :: "table_spec \<Rightarrow> str \<Rightarrow> int \<Rightarrow> (str \<times> json) list" where
  "source_metadata ts target_filename records_synced =
     [(py ''_smart_source_bucket'', JStr (hide_credentials (path ts))),
      (py ''_smart_source_file'', JStr target_filename),
      (py ''_smart_source_lineno'', JNum (records_synced + 2))]"

text \<open>
  The \<open>for row in iterator\<close> loop of \<open>write_file\<close>: the sink, \<open>records_synced\<close> and the
  exception that ended the loop, if one did.
\<close>

fun write_rows ::
  "'s collaborators \<Rightarrow> table_spec \<Rightarrow> str \<Rightarrow> 's \<Rightarrow> int \<Rightarrow> sink \<Rightarrow> int \<Rightarrow> json list
     \<Rightarrow> error option \<Rightarrow> sink \<times> int \<times> error option" where
  "write_rows C ts target_filename schema max_records snk records_synced [] e =
     (snk, records_synced, e)"
| "write_rows C ts target_filename schema max_records snk records_synced (row # rows) e =
     (let metadata = source_metadata ts target_filename records_synced
      in case convert_row C row schema of
           Inl err \<Rightarrow> (snk, records_synced, Some err)
         | Inr converted \<Rightarrow>
             (case singer_write_record snk (name ts) (dict_merge converted metadata) of
                Inl err \<Rightarrow> (snk, records_synced, Some err)
              | Inr snk' \<Rightarrow>
                  if 0 < max_records \<and> max_records \<le> records_synced + 1
                  then (snk', records_synced + 1, None)
                  else write_rows C ts target_filename schema max_records snk'
                         (records_synced + 1) rows e))"

text \<open>\<open>table_spec.get('invalid_format_action','fail').lower() == "ignore"\<close>.\<close>

definition ignores_invalid_format :: "unicode_db \<Rightarrow> table_spec \<Rightarrow> bool" where
  "ignores_invalid_format U ts \<longleftrightarrow>
     str_lower U (get_default (py ''fail'') (invalid_format_action ts)) = py ''ignore''"

definition write_file ::
  "unicode_db \<Rightarrow> library \<Rightarrow> 's collaborators \<Rightarrow> str \<Rightarrow> table_spec \<Rightarrow> 's \<Rightarrow> int \<Rightarrow> sink
     \<Rightarrow> sink \<times> (error + int)" where
  "write_file U L C target_filename ts schema max_records snk =
     (let target_uri = resolve_target_uri L ts target_filename
      in case (case get_row_iterator U L C ts target_uri of
                 Inl e \<Rightarrow> (snk, 0, Some e)
               | Inr (rows, e) \<Rightarrow>
                   write_rows C ts target_filename schema max_records snk 0 rows e) of
           (snk', records_synced, None) \<Rightarrow> (snk', Inr records_synced)
         | (snk', records_synced, Some err) \<Rightarrow>
             if err = InvalidFormatError \<and> ignores_invalid_format U ts
             then (snk', Inr records_synced)
             else (snk', Inl err))"

text \<open>
  \<open>all(value == None for value in row.values())\<close>; only a dictionary has \<open>values\<close>.
\<close>

definition all_values_none :: "json \<Rightarrow> error + bool" where
  "all_values_none row =
     (case row of
        JObj items \<Rightarrow> Inr (list_all (\<lambda>(k, v). v = JNull) items)
      | _ \<Rightarrow> Inl AttributeError)"

text \<open>
  The \<open>for row in iterator\<close> loop of \<open>sample_file\<close>: \<open>samples\<close> and the exception that
  ended the loop, if one did. \<open>continue\<close> goes to the next row with \<open>current_row\<close> as it
  is; \<open>current_row % sample_rate\<close> raises when the rate is 0.
\<close>

fun sample_rows ::
  "table_spec \<Rightarrow> int \<Rightarrow> int \<Rightarrow> json list \<Rightarrow> int \<Rightarrow> json list \<Rightarrow> error option
     \<Rightarrow> json list \<times> error option" where
  "sample_rows ts sample_rate max_records samples current_row [] e = (samples, e)"
| "sample_rows ts sample_rate max_records samples current_row (row # rows) e =
     (if sample_rate = 0 then (samples, Some ZeroDivisionError)
      else if current_row mod sample_rate = 0 then
        (if get_default False (skip_empty_rows ts) then
           (case all_values_none row of
              Inl err \<Rightarrow> (samples, Some err)
            | Inr True \<Rightarrow> sample_rows ts sample_rate max_records samples current_row rows e
            | Inr False \<Rightarrow>
                if int (length (samples @ [row])) \<ge> max_records then (samples @ [row], None)
                else sample_rows ts sample_rate max_records (samples @ [row])
                       (current_row + 1) rows e)
         else
           if int (length (samples @ [row])) \<ge> max_records then (samples @ [row], None)
           else sample_rows ts sample_rate max_records (samples @ [row])
                  (current_row + 1) rows e)
      else
        if int (length samples) \<ge> max_records then (samples, None)
        else sample_rows ts sample_rate max_records samples (current_row + 1) rows e)"

text \<open>
  \<open>row.pop('', None)\<close>: a dictionary loses the key \<open>''\<close>; \<open>list.pop\<close> takes one argument
  at most; nothing else has \<open>pop\<close>.
\<close>

definition pop_undefined :: "json \<Rightarrow> error + json" where
  "pop_undefined row =
     (case row of
        JObj items \<Rightarrow> Inr (JObj (AList.delete [] items))
      | JList xs \<Rightarrow> Inl TypeError
      | _ \<Rightarrow> Inl AttributeError)"

fun pop_undefined_all :: "json list \<Rightarrow> error + json list" where
  "pop_undefined_all [] = Inr []"
| "pop_undefined_all (row # samples) =
     (case pop_undefined row of
        Inl e \<Rightarrow> Inl e
      | Inr row' \<Rightarrow>
          (case pop_undefined_all samples of Inl e \<Rightarrow> Inl e | Inr rest \<Rightarrow> Inr (row' # rest)))"

definition sample_file ::
  "unicode_db \<Rightarrow> library \<Rightarrow> 's collaborators \<Rightarrow> table_spec \<Rightarrow> str \<Rightarrow> bool \<Rightarrow> int \<Rightarrow> int
     \<Rightarrow> error + json list" where
  "sample_file U L C ts target_filename ignore_undefined_field_names sample_rate max_records =
     (let target_uri = resolve_target_uri L ts target_filename
      in case (case get_row_iterator U L C ts target_uri of
                 Inl e \<Rightarrow> ([], Some e)
               | Inr (rows, e) \<Rightarrow> sample_rows ts sample_rate max_records [] 0 rows e) of
           (samples, Some err) \<Rightarrow>
             if err = InvalidFormatError \<and> ignores_invalid_format U ts
             then (if ignore_undefined_field_names then pop_undefined_all samples
                   else Inr samples)
             else Inl err
         | (samples, None) \<Rightarrow>
             if ignore_undefined_field_names then pop_undefined_all samples else Inr samples)"

text \<open>
  \<open>sample_files\<close>: the loop over \<open>target_files\<close> with \<open>to_return\<close> and \<open>files_so_far\<close>.
\<close>

fun sample_files_loop ::
  "unicode_db \<Rightarrow> library \<Rightarrow> 's collaborators \<Rightarrow> table_spec \<Rightarrow> bool \<Rightarrow> int \<Rightarrow> int \<Rightarrow> int
     \<Rightarrow> json list \<Rightarrow> int \<Rightarrow> discovered_object list \<Rightarrow> error + json list" where
  "sample_files_loop U L C ts iufn sample_rate max_records max_files to_return files_so_far [] =
     Inr to_return"
| "sample_files_loop U L C ts iufn sample_rate max_records max_files to_return files_so_far
     (target_file # target_files) =
     (case sample_file U L C ts (key target_file) iufn sample_rate max_records of
        Inl e \<Rightarrow> Inl e
      | Inr samples \<Rightarrow>
          if files_so_far + 1 \<ge> max_files then Inr (to_return @ samples)
          else sample_files_loop U L C ts iufn sample_rate max_records max_files
                 (to_return @ samples) (files_so_far + 1) target_files)"

definition sample_files ::
  "unicode_db \<Rightarrow> library \<Rightarrow> 's collaborators \<Rightarrow> table_spec \<Rightarrow> discovered_object list \<Rightarrow> bool
     \<Rightarrow> int \<Rightarrow> int \<Rightarrow> int \<Rightarrow> error + json list" where
  "sample_files U L C ts target_files iufn sample_rate max_records max_files =
     sample_files_loop U L C ts iufn sample_rate max_records max_files [] 0 target_files"

section \<open>file\_utils.py: discovery\<close>

definition parse_path :: "str \<Rightarrow> str \<times> str" where
  "parse_path p =
     (case split_once (py ''://'') p of
        None \<Rightarrow> (py ''local'', p)
      | Some (a, b) \<Rightarrow> (a, b))"

text \<open>
  \<open>list_files_in_imap_mailbox\<close>: \<open>modified_since.date()\<close> is evaluated after the mailbox
  is opened and raises when there is no watermark.
\<close>

definition list_files_in_imap_mailbox ::
  "backends \<Rightarrow> str \<Rightarrow> str option \<Rightarrow> int option \<Rightarrow> error + raw_object list" where
  "list_files_in_imap_mailbox B uri pfx modified_since =
     (case get_imap_fs B uri of
        Some e \<Rightarrow> Inl e
      | None \<Rightarrow>
          (case modified_since of
             None \<Rightarrow> Inl AttributeError
           | Some since \<Rightarrow> imap_ls B uri pfx since))"

text \<open>The chain of \<open>if protocol == ...\<close> that chooses the adapter.\<close>

definition list_target_objects ::
  "backends \<Rightarrow> table_spec \<Rightarrow> int option \<Rightarrow> error + raw_object list" where
  "list_target_objects B ts modified_since =
     (let (protocol, bucket) = parse_path (path ts)
      in if protocol = py ''s3'' then list_files_in_s3_bucket B bucket (search_prefix ts)
         else if protocol = py ''file'' then list_files_in_local_bucket B bucket (search_prefix ts)
         else if protocol = py ''sftp'' then list_files_in_SSH_bucket B (path ts) (search_prefix ts)
         else if protocol = py ''ftp'' then list_files_in_ftp_server B (path ts) (search_prefix ts)
         else if protocol = py ''gs'' then list_files_in_gs_bucket B bucket (search_prefix ts)
         else if protocol = py ''http'' \<or> protocol = py ''https''
         then convert_URL_to_file_list B ts
         else if protocol = py ''azure''
         then list_files_in_azure_bucket B bucket (search_prefix ts)
         else if protocol = py ''imap''
         then list_files_in_imap_mailbox B (path ts) (search_prefix ts) modified_since
         else Inl ValueError)"

text \<open>
  The condition of the loop of \<open>get_matching_objects\<close>:
  \<open>matcher.search(key) and (modified_since is None or modified_since < last_modified)\<close>.
\<close>

definition is_included :: "(str \<Rightarrow> bool) \<Rightarrow> int option \<Rightarrow> raw_object \<Rightarrow> bool" where
  "is_included matcher_search modified_since obj \<longleftrightarrow>
     matcher_search (Key obj)
     \<and> (case modified_since of None \<Rightarrow> True | Some w \<Rightarrow> w < LastModified obj)"

definition to_discovered :: "raw_object \<Rightarrow> discovered_object" where
  "to_discovered obj = \<lparr>key = Key obj, last_modified = LastModified obj\<rparr>"

text \<open>\<open>sorted(..., key=...)\<close> is a stable sort, as \<open>sort_key\<close> is.\<close>

definition get_matching_objects ::
  "library \<Rightarrow> backends \<Rightarrow> table_spec \<Rightarrow> int option \<Rightarrow> error + discovered_object list" where
  "get_matching_objects L B ts modified_since =
     (case list_target_objects B ts modified_since of
        Inl e \<Rightarrow> Inl e
      | Inr target_objects \<Rightarrow>
          (case re_compile L (pattern ts) of
             None \<Rightarrow> Inl ReError
           | Some matcher_search \<Rightarrow>
               Inr (sort_key last_modified
                      (map to_discovered
                         (filter (is_included matcher_search modified_since) target_objects)))))"

section \<open>file\_utils.py: crawling\<close>

text \<open>The dictionary literal that \<open>config_by_crawl\<close> stores for a new table.\<close>

definition new_entry ::
  "library \<Rightarrow> table_spec \<Rightarrow> str \<Rightarrow> str \<Rightarrow> str \<Rightarrow> int \<Rightarrow> table_spec" where
  "new_entry L source table directory abs_pattern modified_since =
     \<lparr>path = path source,
      name = table,
      pattern = abs_pattern,
      search_prefix = Some directory,
      format = Some (py ''detect''),
      encoding = Some (get_default (py ''utf-8'') (encoding source)),
      universal_newlines = Some (get_default True (universal_newlines source)),
      skip_initial = None,
      invalid_format_action = Some (py ''ignore''),
      skip_empty_rows = None,
      start_date = Some (isoformat L modified_since),
      max_records_per_run = Some (get_default (- 1) (max_records_per_run source)),
      max_sampled_files = Some (get_default 5 (max_sampled_files source)),
      max_sampling_read = Some (get_default 1000 (max_sampling_read source)),
      prefer_number_vs_integer = Some (get_default False (prefer_number_vs_integer source)),
      prefer_schema_as_string = Some (get_default False (prefer_schema_as_string source)),
      key_properties = [],
      delimiter = Some (py ''detect'')\<rparr>"

text \<open>
  The body of \<open>for file in target_files\<close>, on the dictionary \<open>entries\<close> (in insertion
  order, which is the order of \<open>entries.values()\<close>).
\<close>

definition crawl_file ::
  "unicode_db \<Rightarrow> library \<Rightarrow> table_spec \<Rightarrow> int \<Rightarrow> (str \<times> table_spec) list
     \<Rightarrow> discovered_object \<Rightarrow> (str \<times> table_spec) list" where
  "crawl_file U L source modified_since entries file =
     (if \<not> endswith (key file) (py ''/'') then
        (let dirs = split_char 47 (key file);
             table = (if length dirs > 1 then sub_nonword U (join (py ''_'') (butlast dirs))
                      else sub_nonword U (hd dirs));
             directory = join (py ''/'') (butlast dirs);
             parts = split_char 46 (key file);
             rel_pattern = (if length parts > 1 then py ''.*'' @ last parts else hd parts);
             abs_pattern = directory @ py ''/'' @ rel_pattern @ py ''$''
         in case map_of entries table of
              None \<Rightarrow>
                AList.update table
                  (new_entry L source table directory abs_pattern modified_since) entries
            | Some entry \<Rightarrow>
                if abs_pattern \<noteq> pattern entry then
                  (let table_with_pattern = sub_nonword U (table @ py ''_'' @ rel_pattern)
                   in if map_of entries table_with_pattern = None
                      then AList.update table_with_pattern
                             (new_entry L source table_with_pattern directory abs_pattern
                                modified_since) entries
                      else entries)
                else entries)
      else entries)"

text \<open>
  \<open>config_by_crawl\<close>: \<open>config\<close> is the list under \<open>'tables'\<close>. The \<open>return config\<close> stands
  inside the body of \<open>for source in crawl_config\<close>; with no source the function falls off
  its end and returns \<open>None\<close>.
\<close>

fun config_by_crawl_loop ::
  "unicode_db \<Rightarrow> library \<Rightarrow> backends \<Rightarrow> table_spec list \<Rightarrow> table_spec list
     \<Rightarrow> error + table_spec list option" where
  "config_by_crawl_loop U L B config [] = Inr None"
| "config_by_crawl_loop U L B config (source # crawl_config) =
     (case dateutil_parse L (get_default (py ''1970-01-01T00:00:00Z'') (start_date source)) of
        None \<Rightarrow> Inl ValueError
      | Some modified_since \<Rightarrow>
          (case get_matching_objects L B source (Some modified_since) of
             Inl e \<Rightarrow> Inl e
           | Inr target_files \<Rightarrow>
               Inr (Some (config
                          @ map snd (foldl (crawl_file U L source modified_since) []
                                       target_files)))))"

definition config_by_crawl ::
  "unicode_db \<Rightarrow> library \<Rightarrow> backends \<Rightarrow> table_spec list \<Rightarrow> error + table_spec list option" where
  "config_by_crawl U L B crawl_config = config_by_crawl_loop U L B [] crawl_config"

section \<open>Concrete surroundings for the examples\<close>

text \<open>
  An excerpt of the Unicode database: U+0130 (LATIN CAPITAL LETTER I WITH DOT ABOVE) is an
  uppercase letter whose lowercase form is U+0069 U+0307, and U+0307 (COMBINING DOT ABOVE)
  is a printable mark, neither alphanumeric nor space. No example below looks at another
  character beyond ASCII.
\<close>

definition ucd_excerpt :: unicode_db where
  "ucd_excerpt =
     \<lparr>uni_isalnum = (\<lambda>c. c = 304),
      uni_isspace = (\<lambda>c. False),
      uni_isprintable = (\<lambda>c. c = 304 \<or> c = 775),
      uni_islower = (\<lambda>c. False),
      uni_isupper = (\<lambda>c. c = 304),
      uni_istitle = (\<lambda>c. False),
      uni_lower = (\<lambda>c. if c = 304 then [105, 775] else [c])\<rparr>"

text \<open>
  \<open>re.search\<close> with a pattern free of metacharacters finds the pattern as a substring;
  the empty pattern matches every key.
\<close>

fun literal_search :: "str \<Rightarrow> str \<Rightarrow> bool" where
  "literal_search p [] = (p = [])"
| "literal_search p (c # cs) = (prefix p (c # cs) \<or> literal_search p cs)"

definition example_library :: library where
  "example_library =
     \<lparr>re_compile = (\<lambda>p. Some (literal_search p)),
      json_loads = (\<lambda>s. None),
      dateutil_parse = (\<lambda>s. if s = py ''1970-01-01T00:00:00Z'' then Some 0 else None),
      isoformat = (\<lambda>t. py ''1970-01-01T00:00:00+00:00''),
      urlparse_scheme = (\<lambda>p. case split_once (py ''://'') p of None \<Rightarrow> [] | Some (a, b) \<Rightarrow> a),
      urlunparse_root = (\<lambda>p. p @ py ''/'')\<rparr>"

text \<open>A world in which every adapter lists the same objects.\<close>

definition example_backends :: "raw_object list \<Rightarrow> backends" where
  "example_backends objs =
     \<lparr>list_files_in_s3_bucket = (\<lambda>b p. Inr objs),
      list_files_in_local_bucket = (\<lambda>b p. Inr objs),
      list_files_in_SSH_bucket = (\<lambda>b p. Inr objs),
      list_files_in_ftp_server = (\<lambda>b p. Inr objs),
      list_files_in_gs_bucket = (\<lambda>b p. Inr objs),
      convert_URL_to_file_list = (\<lambda>ts. Inr objs),
      list_files_in_azure_bucket = (\<lambda>b p. Inr objs),
      get_imap_fs = (\<lambda>u. None),
      imap_ls = (\<lambda>u p d. Inr objs)\<rparr>"

text \<open>
  Collaborators in which the configuration loads, every supported protocol has its
  parameters, every URI opens with the given text, every format handler produces the
  given stream, and conversion leaves a dictionary as it is.
\<close>

definition example_collaborators :: "str \<Rightarrow> json stream \<Rightarrow> unit collaborators" where
  "example_collaborators body rows =
     \<lparr>load_config = None,
      transport_params = (\<lambda>protocol. None),
      open_uri = (\<lambda>uri un newline open_mode enc. Inr body),
      imap_open = (\<lambda>uri p open_mode newline enc. Inr body),
      csv_get_row_iterator = (\<lambda>ts r. Inr rows),
      excel_get_legacy_row_iterator = (\<lambda>ts r. Inr rows),
      excel_get_row_iterator = (\<lambda>ts r. Inr rows),
      json_get_row_iterator = (\<lambda>ts r. Inr rows),
      jsonl_get_row_iterator = (\<lambda>ts r. Inr rows),
      convert_row = (\<lambda>row schema. case row of JObj items \<Rightarrow> Inr items | _ \<Rightarrow> Inl TypeError)\<rparr>"

text \<open>
  The same collaborators, except that every format handler produces one row that names
  the handler.
\<close>

definition tagged_collaborators :: "str \<Rightarrow> unit collaborators" where
  "tagged_collaborators body =
     \<lparr>load_config = None,
      transport_params = (\<lambda>protocol. None),
      open_uri = (\<lambda>uri un newline open_mode enc. Inr body),
      imap_open = (\<lambda>uri p open_mode newline enc. Inr body),
      csv_get_row_iterator = (\<lambda>ts r. Inr ([JStr (py ''csv'')], None)),
      excel_get_legacy_row_iterator = (\<lambda>ts r. Inr ([JStr (py ''xls'')], None)),
      excel_get_row_iterator = (\<lambda>ts r. Inr ([JStr (py ''xlsx'')], None)),
      json_get_row_iterator = (\<lambda>ts r. Inr ([JStr (py ''json'')], None)),
      jsonl_get_row_iterator = (\<lambda>ts r. Inr ([JStr (py ''jsonl'')], None)),
      convert_row = (\<lambda>row schema. Inl TypeError)\<rparr>"

definition example_spec :: table_spec where
  "example_spec =
     \<lparr>path = py ''file://data'',
      name = py ''t'',
      pattern = [],
      search_prefix = None,
      format = Some (py ''csv''),
      encoding = None,
      universal_newlines = None,
      skip_initial = None,
      invalid_format_action = None,
      skip_empty_rows = None,
      start_date = None,
      max_records_per_run = None,
      max_sampled_files = None,
      max_sampling_read = None,
      prefer_number_vs_integer = None,
      prefer_schema_as_string = None,
      key_properties = [],
      delimiter = None\<rparr>"

text \<open>A table read over SFTP, a protocol that \<open>get_transport_params\<close> supports.\<close>

definition sftp_spec :: table_spec where
  "sftp_spec = example_spec\<lparr>path := py ''sftp://host/data''\<rparr>"

definition empty_sink :: sink where
  "empty_sink = \<lparr>written = [], pipe_capacity = None\<rparr>"

text \<open>The characters of a field name in normal form: lowercase letters, digits, underscore.\<close>

definition norm_char :: "nat \<Rightarrow> bool" where
  "norm_char c \<longleftrightarrow> ascii_lower c \<or> ascii_digit c \<or> c = 95"

section \<open>Discovery: order and selection\<close>

lemma example_listing:
  "list_target_objects (example_backends objs) example_spec w = Inr objs"
  by (simp add: list_target_objects_def parse_path_def example_spec_def example_backends_def py_def)

lemma example_listing_pattern:
  "list_target_objects (example_backends objs) (example_spec\<lparr>pattern := p\<rparr>) w = Inr objs"
  by (simp add: list_target_objects_def parse_path_def example_spec_def example_backends_def py_def)

text \<open>
  C1. Whatever the table specification, the watermark and the listed objects, a list
  returned by \<open>get_matching_objects\<close> is sorted non-decreasing by \<open>last_modified\<close>. When
  the listing succeeds, the pattern compiles and no listed object passes the filter, the
  call returns the empty list and raises nothing.
\<close>

theorem get_matching_objects_sorted:
  "(get_matching_objects L B ts w = Inr objs \<longrightarrow> sorted (map last_modified objs)) \<and>
   (list_target_objects B ts w = Inr listed \<and> re_compile L (pattern ts) = Some search \<and>
    (\<forall>x \<in> set listed. \<not> (search (Key x) \<and> (\<forall>t. w = Some t \<longrightarrow> t < LastModified x)))
    \<longrightarrow> get_matching_objects L B ts w = Inr [])"
proof (intro conjI impI)
  assume "get_matching_objects L B ts w = Inr objs"
  then show "sorted (map last_modified objs)"
    by (auto simp: get_matching_objects_def split: sum.splits option.splits)
next
  assume a: "list_target_objects B ts w = Inr listed \<and> re_compile L (pattern ts) = Some search \<and>
    (\<forall>x \<in> set listed. \<not> (search (Key x) \<and> (\<forall>t. w = Some t \<longrightarrow> t < LastModified x)))"
  then have "filter (is_included search w) listed = []"
    by (auto simp: filter_empty_conv is_included_def split: option.splits)
  with a show "get_matching_objects L B ts w = Inr []"
    by (simp add: get_matching_objects_def)
qed

theorem get_matching_objects_sorted_witness:
  "get_matching_objects example_library
     (example_backends [\<lparr>Key = py ''b.csv'', LastModified = 5\<rparr>, \<lparr>Key = py ''a.csv'', LastModified = 3\<rparr>])
     example_spec (Some 1)
   = Inr [\<lparr>key = py ''a.csv'', last_modified = 3\<rparr>, \<lparr>key = py ''b.csv'', last_modified = 5\<rparr>]
   \<and> sorted (map last_modified
        [\<lparr>key = py ''a.csv'', last_modified = 3\<rparr>, \<lparr>key = py ''b.csv'', last_modified = 5\<rparr>])
   \<and> get_matching_objects example_library
     (example_backends [\<lparr>Key = py ''b.csv'', LastModified = 5\<rparr>, \<lparr>Key = py ''a.csv'', LastModified = 3\<rparr>])
     example_spec (Some 7) = Inr []"
proof -
  let ?B = "example_backends [\<lparr>Key = py ''b.csv'', LastModified = 5\<rparr>, \<lparr>Key = py ''a.csv'', LastModified = 3\<rparr>]"
  have c: "re_compile example_library (pattern example_spec) = Some (literal_search [])"
    by (simp add: example_library_def example_spec_def)
  have r: "get_matching_objects example_library ?B example_spec (Some 1)
      = Inr [\<lparr>key = py ''a.csv'', last_modified = 3\<rparr>, \<lparr>key = py ''b.csv'', last_modified = 5\<rparr>]"
    by (simp add: get_matching_objects_def example_listing c is_included_def to_discovered_def
          py_def)
  from get_matching_objects_sorted [of example_library ?B example_spec "Some 1"
      "[\<lparr>key = py ''a.csv'', last_modified = 3\<rparr>, \<lparr>key = py ''b.csv'', last_modified = 5\<rparr>]"] r
  have s: "sorted (map last_modified
        [\<lparr>key = py ''a.csv'', last_modified = 3\<rparr>, \<lparr>key = py ''b.csv'', last_modified = 5\<rparr>])"
    by blast
  from get_matching_objects_sorted [of example_library ?B example_spec "Some 7" _
      "[\<lparr>Key = py ''b.csv'', LastModified = 5\<rparr>, \<lparr>Key = py ''a.csv'', LastModified = 3\<rparr>]"
      "literal_search []"] example_listing c
  have e: "get_matching_objects example_library ?B example_spec (Some 7) = Inr []"
    by simp
  from r s e show ?thesis by blast
qed

text \<open>
  C2. When the listing succeeds and the pattern compiles, \<open>get_matching_objects\<close> returns,
  each as often as it is listed, exactly the objects whose key the \<open>search\<close> method of the
  compiled pattern accepts and whose modification time is strictly after the watermark;
  without a watermark, exactly those whose key \<open>search\<close> accepts.
\<close>

theorem get_matching_objects_exact:
  assumes "list_target_objects B ts w = Inr listed"
    and "re_compile L (pattern ts) = Some search"
  shows "\<exists>objs. get_matching_objects L B ts w = Inr objs \<and>
           mset objs = image_mset to_discovered
             (filter_mset (\<lambda>x. search (Key x) \<and> (\<forall>t. w = Some t \<longrightarrow> t < LastModified x))
                (mset listed)) \<and>
           (w = None \<longrightarrow> mset objs = image_mset to_discovered
             (filter_mset (\<lambda>x. search (Key x)) (mset listed)))"
proof -
  have eq: "is_included search w = (\<lambda>x. search (Key x) \<and> (\<forall>t. w = Some t \<longrightarrow> t < LastModified x))"
    by (auto simp: is_included_def fun_eq_iff split: option.splits)
  show ?thesis
    using assms by (auto simp: get_matching_objects_def eq)
qed

text \<open>
  The pattern \<open>file\<close> selects the key \<open>a/file.csv.bak\<close>, which it matches in the middle
  only; the key \<open>file\<close> itself is left out, its time being equal to the watermark.
\<close>

theorem get_matching_objects_exact_witness:
  "\<exists>objs. get_matching_objects example_library
       (example_backends [\<lparr>Key = py ''a/file.csv.bak'', LastModified = 5\<rparr>,
                          \<lparr>Key = py ''b.csv'', LastModified = 9\<rparr>,
                          \<lparr>Key = py ''file'', LastModified = 2\<rparr>])
       (example_spec\<lparr>pattern := py ''file''\<rparr>) (Some 2) = Inr objs
     \<and> mset objs = {#\<lparr>key = py ''a/file.csv.bak'', last_modified = 5\<rparr>#}"
proof -
  let ?objs = "[\<lparr>Key = py ''a/file.csv.bak'', LastModified = 5\<rparr>,
                \<lparr>Key = py ''b.csv'', LastModified = 9\<rparr>,
                \<lparr>Key = py ''file'', LastModified = 2\<rparr>]"
  have c: "re_compile example_library (pattern (example_spec\<lparr>pattern := py ''file''\<rparr>))
             = Some (literal_search (py ''file''))"
    by (simp add: example_library_def)
  from get_matching_objects_exact [OF example_listing_pattern c, of ?objs "Some 2"]
  show ?thesis
    by (simp add: to_discovered_def py_def)
qed

section \<open>Crawling\<close>

lemma config_by_crawl_first_source_only:
  "config_by_crawl U L B (source # crawl_config) = config_by_crawl U L B [source]"
  by (simp add: config_by_crawl_def)

text \<open>
  C7. \<open>config_by_crawl\<close> on two crawl sources, \<open>file://one\<close> and \<open>file://two\<close>, under each of
  which the files \<open>a/x.csv\<close>, \<open>a/y.csv\<close> and \<open>b/z.json\<close> are listed: the result holds the two
  tables of the first source, \<open>a\<close> with pattern \<open>a/.*csv$\<close> and \<open>b\<close> with pattern
  \<open>b/.*json$\<close>, and no table of the second source.
\<close>

theorem config_by_crawl_ignores_later_sources:
  "map_sum id (map_option (map (\<lambda>t. (path t, name t, pattern t))))
     (config_by_crawl ucd_excerpt example_library
        (example_backends
           [\<lparr>Key = py ''a/x.csv'', LastModified = 1\<rparr>,
            \<lparr>Key = py ''a/y.csv'', LastModified = 2\<rparr>,
            \<lparr>Key = py ''b/z.json'', LastModified = 3\<rparr>])
        [example_spec\<lparr>path := py ''file://one''\<rparr>, example_spec\<lparr>path := py ''file://two''\<rparr>])
   = Inr (Some [(py ''file://one'', py ''a'', py ''a/.*csv$''),
                (py ''file://one'', py ''b'', py ''b/.*json$'')])"
  by code_simp

section \<open>Field names\<close>

lemmas key_defs = jsonl_key_def json_key_def smart_extra_def formatted_key_def sub_nonword_nonspace_def
      re_word_def isalnum_def isspace_def ascii_upper_def ascii_lower_def ascii_digit_def
      str_lower_def lower_char_def str_isupper_def islower_char_def isupper_char_def istitle_char_def py_def

lemma sub_spaces_id: "\<forall>c \<in> set s. \<not> isspace U c \<Longrightarrow> sub_spaces U s = s"
  by (induction s) auto

lemma norm_char_facts:
  "norm_char c \<Longrightarrow> c < 128 \<and> re_word U c \<and> \<not> isspace U c \<and> lower_char U c = [c]"
  by (auto simp: norm_char_def ascii_lower_def ascii_digit_def ascii_upper_def re_word_def
      isalnum_def isspace_def lower_char_def)

lemma str_lower_id: "\<forall>c \<in> set s. norm_char c \<Longrightarrow> str_lower U s = s"
  by (induction s) (auto simp: str_lower_def norm_char_facts)

lemma set_sub_spaces: "set (sub_spaces U s) \<subseteq> {c \<in> set s. \<not> isspace U c} \<union> {95}"
proof (induction U s rule: sub_spaces.induct)
  case (1 U)
  then show ?case by simp
next
  case (2 U c cs)
  show ?case
  proof (cases "isspace U c")
    case True
    with 2 have "set (sub_spaces U (dropWhile (isspace U) cs))
        \<subseteq> {c \<in> set (dropWhile (isspace U) cs). \<not> isspace U c} \<union> {95}" by simp
    moreover have "set (dropWhile (isspace U) cs) \<subseteq> set cs"
      by (auto dest: set_dropWhileD)
    ultimately show ?thesis using True by auto
  next
    case False
    with 2 show ?thesis by auto
  qed
qed

lemma lower_char_ascii:
  "c < 128 \<Longrightarrow> re_word U c \<Longrightarrow> \<forall>d \<in> set (lower_char U c). norm_char d"
  by (auto simp: norm_char_def ascii_lower_def ascii_digit_def ascii_upper_def re_word_def
      isalnum_def lower_char_def)

lemma json_key_norm:
  assumes "\<forall>c \<in> set k. c < 128"
  shows "\<forall>c \<in> set (json_key U (Some k)). norm_char c"
proof
  fix d assume "d \<in> set (json_key U (Some k))"
  then obtain c where c: "c \<in> set (formatted_key U k)" and d: "d \<in> set (lower_char U c)"
    by (auto simp: json_key_def smart_extra_def str_lower_def)
  from c set_sub_spaces [of U "sub_nonword_nonspace U k"]
  have "c = 95 \<or> (c \<in> set k \<and> (re_word U c \<or> isspace U c) \<and> \<not> isspace U c)"
    by (auto simp: formatted_key_def sub_nonword_nonspace_def)
  then have "c < 128 \<and> re_word U c"
    using assms by (auto simp: re_word_def)
  with d lower_char_ascii show "norm_char d" by blast
qed

lemma json_key_fixed:
  assumes "\<forall>c \<in> set s. norm_char c"
  shows "json_key U (Some s) = s"
proof -
  have "sub_nonword_nonspace U s = s"
    using assms by (auto simp: sub_nonword_nonspace_def norm_char_facts intro: filter_True)
  moreover have "sub_spaces U s = s"
    using assms by (intro sub_spaces_id) (auto simp: norm_char_facts)
  ultimately show ?thesis
    using assms by (simp add: json_key_def smart_extra_def formatted_key_def str_lower_id)
qed

lemma order_example: "json_key U (Some (py ''Order #'')) = py ''order_''"
  by (simp add: json_key_def smart_extra_def formatted_key_def sub_nonword_nonspace_def
      re_word_def isalnum_def isspace_def ascii_upper_def ascii_lower_def ascii_digit_def
      str_lower_def lower_char_def py_def)

text \<open>
  C6 (amended). For every field name made of ASCII characters, the normalization of the json
  row iterator (non-word, non-whitespace characters deleted, whitespace runs replaced by an
  underscore, lowercased) is idempotent; \<open>Order #\<close> becomes \<open>order_\<close>.
\<close>

theorem json_key_idempotent_ascii:
  "((\<forall>c \<in> set k. c < 128) \<longrightarrow>
      json_key U (Some (json_key U (Some k))) = json_key U (Some k))
   \<and> json_key U (Some (py ''Order #'')) = py ''order_''"
  using json_key_fixed json_key_norm order_example by blast

theorem json_key_idempotent_ascii_witness:
  "json_key ucd_excerpt (Some (json_key ucd_excerpt (Some (py ''Order #''))))
     = json_key ucd_excerpt (Some (py ''Order #''))
   \<and> json_key ucd_excerpt (Some (py ''Order #'')) = py ''order_''"
proof -
  have a: "\<forall>c \<in> set (py ''Order #''). c < 128" by (simp add: py_def)
  from json_key_idempotent_ascii [of "py ''Order #''" ucd_excerpt] a
  show ?thesis by blast
qed

text \<open>
  C6 as stated fails on the name consisting of U+0130: it is a word character, its lowercase
  form is \<open>i\<close> followed by U+0307, and U+0307 is neither word nor space, so a second
  normalization deletes it.
\<close>

theorem json_key_not_idempotent:
  "json_key ucd_excerpt (Some (json_key ucd_excerpt (Some [304])))
     \<noteq> json_key ucd_excerpt (Some [304])"
  by (simp add: key_defs ucd_excerpt_def)

text \<open>
  C9. In the jsonl row iterator a normalized field name is lowercased if and only if it
  is uppercase in the sense of \<open>str.isupper\<close>: it has an uppercase character and no
  lowercase or titlecase character. A name with a lowercase character, so every
  mixed-case name, is kept as it is. The json row iterator lowercases every normalized
  name.
\<close>

theorem jsonl_key_lowercased_iff:
  "jsonl_key U (Some k) =
     (if (\<exists>c \<in> set (formatted_key U k). isupper_char U c)
         \<and> (\<forall>c \<in> set (formatted_key U k). \<not> islower_char U c \<and> \<not> istitle_char U c)
      then str_lower U (formatted_key U k) else formatted_key U k)
   \<and> ((\<exists>c \<in> set (formatted_key U k). islower_char U c)
        \<longrightarrow> jsonl_key U (Some k) = formatted_key U k)
   \<and> json_key U (Some k) = str_lower U (formatted_key U k)"
  by (auto simp: jsonl_key_def json_key_def smart_extra_def str_isupper_def Let_def)

theorem jsonl_key_lowercased_iff_witness:
  "jsonl_key ucd_excerpt (Some (py ''Order Id'')) = py ''Order_Id''
   \<and> json_key ucd_excerpt (Some (py ''Order Id'')) = py ''order_id''
   \<and> jsonl_key ucd_excerpt (Some (py ''ORDER ID'')) = py ''order_id''"
proof -
  have f1: "formatted_key ucd_excerpt (py ''Order Id'') = py ''Order_Id''"
    by (simp add: key_defs)
  have f2: "formatted_key ucd_excerpt (py ''ORDER ID'') = py ''ORDER_ID''"
    by (simp add: key_defs)
  have l1: "str_lower ucd_excerpt (py ''Order_Id'') = py ''order_id''"
    by (simp add: key_defs)
  have l2: "str_lower ucd_excerpt (py ''ORDER_ID'') = py ''order_id''"
    by (simp add: key_defs)
  have m: "\<exists>c \<in> set (formatted_key ucd_excerpt (py ''Order Id'')). islower_char ucd_excerpt c"
    unfolding f1 by (simp add: islower_char_def ascii_lower_def py_def)
  have u: "(\<exists>c \<in> set (formatted_key ucd_excerpt (py ''ORDER ID'')). isupper_char ucd_excerpt c)
         \<and> (\<forall>c \<in> set (formatted_key ucd_excerpt (py ''ORDER ID'')).
               \<not> islower_char ucd_excerpt c \<and> \<not> istitle_char ucd_excerpt c)"
    unfolding f2
    by (simp add: isupper_char_def islower_char_def istitle_char_def ascii_upper_def
        ascii_lower_def py_def)
  from jsonl_key_lowercased_iff [of ucd_excerpt "py ''Order Id''"] m
  have a: "jsonl_key ucd_excerpt (Some (py ''Order Id'')) = py ''Order_Id''
      \<and> json_key ucd_excerpt (Some (py ''Order Id'')) = py ''order_id''"
    unfolding f1 l1 by blast
  from jsonl_key_lowercased_iff [of ucd_excerpt "py ''ORDER ID''"] u
  have b: "jsonl_key ucd_excerpt (Some (py ''ORDER ID'')) = py ''order_id''"
    unfolding f2 l2 by presburger
  from a b show ?thesis by blast
qed

section \<open>Skipping initial rows\<close>

lemma skip_rows_drop: "k \<le> length rows \<Longrightarrow> skip_rows k (rows, e) = Inr (drop k rows, e)"
  by (induction k "(rows, e)" arbitrary: rows rule: skip_rows.induct) auto

lemma skip_rows_short: "length rows < k \<Longrightarrow> skip_rows k (rows, None) = Inl StopIteration"
  by (induction k "(rows, None :: error option)" arbitrary: rows rule: skip_rows.induct) auto

text \<open>
  A \<open>file://\<close> URI does not open: \<open>get_transport_params\<close> raises \<open>ValueError\<close> for the
  protocol \<open>file\<close>, inside the \<open>try\<close> of \<open>get_row_iterator\<close> for a declared format and
  outside it during detection.
\<close>

lemma file_scheme_does_not_open:
  "get_row_iterator ucd_excerpt example_library (example_collaborators [] ([], None))
     example_spec (py ''file://data/one.csv'') = Inl InvalidFormatError
   \<and> get_row_iterator ucd_excerpt example_library (example_collaborators [] ([], None))
     (example_spec\<lparr>format := None\<rparr>) (py ''file://data/export'') = Inl ValueError"
  by code_simp

text \<open>
  C3. \<open>get_row_iterator\<close> on a csv file of one row, read over SFTP: with
  \<open>skip_initial = 1\<close> it returns an iterator of no rows; with \<open>skip_initial = 2\<close> the
  second \<open>next\<close> raises \<open>StopIteration\<close>, which leaves \<open>get_row_iterator\<close> and then
  \<open>write_file\<close> and \<open>sample_file\<close>, whose handlers catch \<open>InvalidFormatError\<close> only. (For
  \<open>k\<close> up to the number of rows the first \<open>k\<close> rows are dropped and the others kept in
  order: \<open>skip_rows_drop\<close>.)
\<close>

theorem get_row_iterator_skip_beyond_end:
  "resolve_target_uri example_library sftp_spec (py ''one.csv'') = py ''sftp://host/data/one.csv''
   \<and> get_row_iterator ucd_excerpt example_library
         (example_collaborators [] ([JObj [(py ''a'', JNum 1)]], None))
         (sftp_spec\<lparr>skip_initial := Some 1\<rparr>) (py ''sftp://host/data/one.csv'') = Inr ([], None)
   \<and> get_row_iterator ucd_excerpt example_library
         (example_collaborators [] ([JObj [(py ''a'', JNum 1)]], None))
         (sftp_spec\<lparr>skip_initial := Some 2\<rparr>) (py ''sftp://host/data/one.csv'')
       = Inl StopIteration
   \<and> write_file ucd_excerpt example_library
         (example_collaborators [] ([JObj [(py ''a'', JNum 1)]], None)) (py ''one.csv'')
         (sftp_spec\<lparr>skip_initial := Some 2\<rparr>) () (- 1) empty_sink
       = (empty_sink, Inl StopIteration)
   \<and> sample_file ucd_excerpt example_library
         (example_collaborators [] ([JObj [(py ''a'', JNum 1)]], None))
         (sftp_spec\<lparr>skip_initial := Some 2\<rparr>) (py ''one.csv'') False 1 10
       = Inl StopIteration"
  by code_simp

section \<open>Format detection\<close>

text \<open>
  C8. \<open>get_row_iterator\<close> with \<open>format\<close> absent or \<open>detect\<close> on an SFTP URI without a
  known extension looks at the first character of the probe buffer, not at its first
  non-whitespace character: a file that starts with a space and then \<open>[\<close> is taken for
  csv, a file that starts with a newline and then \<open>[\<close> fails detection, and only a file
  whose first character is \<open>[\<close> is taken for json; \<open>get_row_iterator\<close> hands the file to
  the handler so chosen. A known extension decides without a look at the content, in any
  letter case.
\<close>

theorem detect_format_first_character:
  "lstrip ucd_excerpt (py '' [1, 2]'') = py ''[1, 2]''
   \<and> detect_format ucd_excerpt example_library (tagged_collaborators (py '' [1, 2]'')) True
         (py ''utf-8'') (py ''sftp://host/data/export'') = Inr (py ''csv'')
   \<and> lstrip ucd_excerpt (10 # py ''[1, 2]'') = py ''[1, 2]''
   \<and> detect_format ucd_excerpt example_library (tagged_collaborators (10 # py ''[1, 2]'')) True
         (py ''utf-8'') (py ''sftp://host/data/export'') = Inl ValueError
   \<and> detect_format ucd_excerpt example_library (tagged_collaborators (py ''[1, 2]'')) True
         (py ''utf-8'') (py ''sftp://host/data/export'') = Inr (py ''json'')
   \<and> get_row_iterator ucd_excerpt example_library (tagged_collaborators (py '' [1, 2]''))
         (sftp_spec\<lparr>format := None\<rparr>) (py ''sftp://host/data/export'')
       = Inr ([JStr (py ''csv'')], None)
   \<and> get_row_iterator ucd_excerpt example_library (tagged_collaborators (10 # py ''[1, 2]''))
         (sftp_spec\<lparr>format := Some (py ''detect'')\<rparr>) (py ''sftp://host/data/export'')
       = Inl ValueError
   \<and> get_row_iterator ucd_excerpt example_library (tagged_collaborators (py ''[1, 2]''))
         (sftp_spec\<lparr>format := None\<rparr>) (py ''sftp://host/data/export'')
       = Inr ([JStr (py ''json'')], None)
   \<and> get_row_iterator ucd_excerpt example_library (tagged_collaborators (py '' [1, 2]''))
         (sftp_spec\<lparr>format := None\<rparr>) (py ''sftp://host/data/EXPORT.JSON'')
       = Inr ([JStr (py ''json'')], None)"
  by code_simp

section \<open>Record caps and invalid files\<close>

lemma write_rows_cap:
  "int j < m \<Longrightarrow> nat (m - int j) \<le> length rows \<Longrightarrow> pipe_capacity snk = None \<Longrightarrow>
   map (\<lambda>row. convert_row C row schema) (take (nat (m - int j)) rows) = map Inr ds \<Longrightarrow>
   write_rows C ts fn schema m snk (int j) rows e
     = (snk\<lparr>written := written snk
              @ map (\<lambda>(i, d). (name ts, dict_merge d (source_metadata ts fn (int i))))
                  (enumerate j ds)\<rparr>, m, None)"
proof (induction ds arbitrary: rows snk j)
  case Nil
  then have "take (nat (m - int j)) rows = []" by simp
  with Nil.prems(1,2) show ?case by (cases rows) auto
next
  case (Cons d ds)
  from Cons.prems(1) have n: "nat (m - int j) = Suc (nat (m - int (Suc j)))" by simp
  from Cons.prems(4) n obtain row rows' where rows: "rows = row # rows'"
    by (cases rows) auto
  from Cons.prems(4) n rows have d: "convert_row C row schema = Inr d"
    and rest: "map (\<lambda>row. convert_row C row schema) (take (nat (m - int (Suc j))) rows') = map Inr ds"
    by auto
  let ?r = "(name ts, dict_merge d (source_metadata ts fn (int j)))"
  let ?snk = "snk\<lparr>written := written snk @ [?r]\<rparr>"
  have w: "singer_write_record snk (name ts) (dict_merge d (source_metadata ts fn (int j)))
             = Inr ?snk"
    using Cons.prems(3) by (simp add: singer_write_record_def)
  show ?case
  proof (cases "m \<le> int j + 1")
    case True
    with Cons.prems(1) have "nat (m - int (Suc j)) = 0" by simp
    with rest have "ds = []" by simp
    with True Cons.prems(1) d w rows show ?thesis by simp
  next
    case False
    then have lt: "int (Suc j) < m" by simp
    have len: "nat (m - int (Suc j)) \<le> length rows'"
      using Cons.prems(2) n rows by simp
    have p: "pipe_capacity ?snk = None" using Cons.prems(3) by simp
    from Cons.IH [OF lt len p rest]
    have "write_rows C ts fn schema m ?snk (int j + 1) rows' e
            = (?snk\<lparr>written := written ?snk
                 @ map (\<lambda>(i, d). (name ts, dict_merge d (source_metadata ts fn (int i))))
                     (enumerate (Suc j) ds)\<rparr>, m, None)"
      by (simp add: add.commute)
    then show ?thesis
      using False d w rows by simp
  qed
qed

lemma write_rows_unlimited:
  "m \<le> 0 \<Longrightarrow> pipe_capacity snk = None \<Longrightarrow>
   map (\<lambda>row. convert_row C row schema) rows = map Inr ds \<Longrightarrow>
   write_rows C ts fn schema m snk (int j) rows e
     = (snk\<lparr>written := written snk
              @ map (\<lambda>(i, d). (name ts, dict_merge d (source_metadata ts fn (int i))))
                  (enumerate j ds)\<rparr>, int j + int (length rows), e)"
proof (induction rows arbitrary: ds snk j)
  case Nil
  then show ?case by simp
next
  case (Cons row rows)
  from Cons.prems(3) obtain d ds' where ds: "ds = d # ds'"
    and d: "convert_row C row schema = Inr d"
    and rest: "map (\<lambda>row. convert_row C row schema) rows = map Inr ds'"
    by (cases ds) auto
  let ?r = "(name ts, dict_merge d (source_metadata ts fn (int j)))"
  let ?snk = "snk\<lparr>written := written snk @ [?r]\<rparr>"
  have w: "singer_write_record snk (name ts) (dict_merge d (source_metadata ts fn (int j)))
             = Inr ?snk"
    using Cons.prems(2) by (simp add: singer_write_record_def)
  have p: "pipe_capacity ?snk = None" using Cons.prems(2) by simp
  from Cons.IH [OF Cons.prems(1) p rest, of "Suc j"]
  have "write_rows C ts fn schema m ?snk (int j + 1) rows e
            = (?snk\<lparr>written := written ?snk
                 @ map (\<lambda>(i, d). (name ts, dict_merge d (source_metadata ts fn (int i))))
                     (enumerate (Suc j) ds')\<rparr>, int j + int (length (row # rows)), e)"
    by (simp add: add.commute)
  then show ?case
    using Cons.prems(1) d w ds by simp
qed

lemma sftp_get_row_iterator:
  "get_row_iterator U example_library (example_collaborators body s)
     (sftp_spec\<lparr>invalid_format_action := a, skip_empty_rows := b\<rparr>)
     (resolve_target_uri example_library
        (sftp_spec\<lparr>invalid_format_action := a, skip_empty_rows := b\<rparr>) (py ''one.csv''))
   = Inr s"
  by (simp add: get_row_iterator_def open_iterator_def get_streamreader_def
      get_transport_params_def resolve_target_uri_def example_library_def
      example_collaborators_def sftp_spec_def example_spec_def get_default_def py_def)

lemma sftp_spec_plain:
  "sftp_spec\<lparr>invalid_format_action := None, skip_empty_rows := None\<rparr> = sftp_spec"
  by (simp add: sftp_spec_def example_spec_def)

text \<open>
  C4. Let the iterator of a file produce the rows \<open>rows\<close> and let the sink accept records.
  With a positive cap \<open>m\<close> smaller than the number of rows, \<open>write_file\<close> returns \<open>m\<close>
  without raising and has written exactly \<open>m\<close> records: the first \<open>m\<close> rows, converted
  (\<open>ds\<close>), each merged with its metadata, in the order of the stream, numbered from 0.
  The rows after the first \<open>m\<close> and the way the stream would end after them (also with
  an exception) do not matter: they are not read. With a cap of 0 or less, every row of
  a stream that ends normally is written, in the same way.
\<close>

theorem write_file_max_records:
  assumes "get_row_iterator U L C ts (resolve_target_uri L ts fn) = Inr (rows, e)"
    and "pipe_capacity snk = None"
  shows "(0 < m \<and> nat m < length rows
          \<and> map (\<lambda>row. convert_row C row schema) (take (nat m) rows) = map Inr ds
          \<longrightarrow> write_file U L C fn ts schema m snk
                = (snk\<lparr>written := written snk
                      @ map (\<lambda>(i, d). (name ts, dict_merge d (source_metadata ts fn (int i))))
                          (enumerate 0 ds)\<rparr>, Inr m)
              \<and> length ds = nat m)
       \<and> (m \<le> 0 \<and> e = None
          \<and> map (\<lambda>row. convert_row C row schema) rows = map Inr ds
          \<longrightarrow> write_file U L C fn ts schema m snk
                = (snk\<lparr>written := written snk
                      @ map (\<lambda>(i, d). (name ts, dict_merge d (source_metadata ts fn (int i))))
                          (enumerate 0 ds)\<rparr>, Inr (int (length rows)))
              \<and> length ds = length rows)"
proof (intro conjI impI)
  assume a: "0 < m \<and> nat m < length rows
          \<and> map (\<lambda>row. convert_row C row schema) (take (nat m) rows) = map Inr ds"
  from a have "int 0 < m" and "nat (m - int 0) \<le> length rows"
    and "map (\<lambda>row. convert_row C row schema) (take (nat (m - int 0)) rows) = map Inr ds"
    by simp_all
  from write_rows_cap [OF this(1,2) assms(2) this(3), of ts fn e] assms(1)
  show "write_file U L C fn ts schema m snk
                = (snk\<lparr>written := written snk
                      @ map (\<lambda>(i, d). (name ts, dict_merge d (source_metadata ts fn (int i))))
                          (enumerate 0 ds)\<rparr>, Inr m)"
    by (simp add: write_file_def)
  from a have "length (take (nat m) rows) = length ds"
    by (blast dest: map_eq_imp_length_eq)
  with a show "length ds = nat m" by simp
next
  assume a: "m \<le> 0 \<and> e = None
          \<and> map (\<lambda>row. convert_row C row schema) rows = map Inr ds"
  then have m: "m \<le> 0" and c: "map (\<lambda>row. convert_row C row schema) rows = map Inr ds"
    by simp_all
  from write_rows_unlimited [OF m assms(2) c, of ts fn 0 e] assms(1) a
  show "write_file U L C fn ts schema m snk
                = (snk\<lparr>written := written snk
                      @ map (\<lambda>(i, d). (name ts, dict_merge d (source_metadata ts fn (int i))))
                          (enumerate 0 ds)\<rparr>, Inr (int (length rows)))"
    by (simp add: write_file_def)
  from c show "length ds = length rows"
    by (metis map_eq_imp_length_eq)
qed

theorem write_file_max_records_witness:
  "write_file ucd_excerpt example_library
       (example_collaborators []
          ([JObj [(py ''a'', JNum 1)], JObj [(py ''a'', JNum 2)], JObj [(py ''a'', JNum 3)]],
           Some ValueError))
       (py ''one.csv'') sftp_spec () 2 empty_sink
     = (empty_sink\<lparr>written := written empty_sink
          @ map (\<lambda>(i, d). (name sftp_spec,
                   dict_merge d (source_metadata sftp_spec (py ''one.csv'') (int i))))
              (enumerate 0 [[(py ''a'', JNum 1)], [(py ''a'', JNum 2)]])\<rparr>, Inr 2)
   \<and> length [[(py ''a'', JNum 1)], [(py ''a'', JNum (2::int))]] = nat 2
   \<and> written (fst (write_file ucd_excerpt example_library
       (example_collaborators []
          ([JObj [(py ''a'', JNum 1)], JObj [(py ''a'', JNum 2)], JObj [(py ''a'', JNum 3)]],
           Some ValueError))
       (py ''one.csv'') sftp_spec () 2 empty_sink))
     = [(py ''t'', [(py ''a'', JNum 1),
                   (py ''_smart_source_bucket'', JStr (py ''sftp://host/data'')),
                   (py ''_smart_source_file'', JStr (py ''one.csv'')),
                   (py ''_smart_source_lineno'', JNum 2)]),
        (py ''t'', [(py ''a'', JNum 2),
                   (py ''_smart_source_bucket'', JStr (py ''sftp://host/data'')),
                   (py ''_smart_source_file'', JStr (py ''one.csv'')),
                   (py ''_smart_source_lineno'', JNum 3)])]"
proof -
  let ?rows = "[JObj [(py ''a'', JNum 1)], JObj [(py ''a'', JNum 2)], JObj [(py ''a'', JNum 3)]]"
  let ?C = "example_collaborators [] (?rows, Some ValueError)"
  have p: "pipe_capacity empty_sink = None" by (simp add: empty_sink_def)
  have g: "get_row_iterator ucd_excerpt example_library ?C sftp_spec
             (resolve_target_uri example_library sftp_spec (py ''one.csv''))
           = Inr (?rows, Some ValueError)"
    using sftp_get_row_iterator [where U = ucd_excerpt and body = "[]"
        and s = "(?rows, Some ValueError)" and a = None and b = None]
    by (simp only: sftp_spec_plain)
  have c: "0 < (2::int) \<and> nat 2 < length ?rows
      \<and> map (\<lambda>row. convert_row ?C row ()) (take (nat 2) ?rows)
          = map Inr [[(py ''a'', JNum 1)], [(py ''a'', JNum 2)]]"
    by (simp add: example_collaborators_def numeral_2_eq_2)
  have w: "written (fst (write_file ucd_excerpt example_library ?C (py ''one.csv'') sftp_spec
              () 2 empty_sink))
     = [(py ''t'', [(py ''a'', JNum 1),
                   (py ''_smart_source_bucket'', JStr (py ''sftp://host/data'')),
                   (py ''_smart_source_file'', JStr (py ''one.csv'')),
                   (py ''_smart_source_lineno'', JNum 2)]),
        (py ''t'', [(py ''a'', JNum 2),
                   (py ''_smart_source_bucket'', JStr (py ''sftp://host/data'')),
                   (py ''_smart_source_file'', JStr (py ''one.csv'')),
                   (py ''_smart_source_lineno'', JNum 3)])]"
    by code_simp
  from write_file_max_records [OF g p, THEN conjunct1, THEN mp, OF c] w
  show ?thesis by blast
qed

lemma lower_ignore: "str_lower U (py ''ignore'') = py ''ignore''"
  by (simp add: str_lower_def lower_char_def ascii_upper_def py_def)

lemma lower_fail: "str_lower U (py ''fail'') \<noteq> py ''ignore''"
  by (simp add: str_lower_def lower_char_def ascii_upper_def py_def)

lemma ignores_invalid_format_contract:
  "invalid_format_action ts \<in> {None, Some (py ''ignore''), Some (py ''fail'')} \<Longrightarrow>
   ignores_invalid_format U ts \<longleftrightarrow> invalid_format_action ts = Some (py ''ignore'')"
  using lower_ignore [of U] lower_fail [of U]
  by (auto simp: ignores_invalid_format_def get_default_def py_def)

text \<open>
  C5. Let the row iterator of a file raise \<open>InvalidFormatError\<close>, when it is opened or
  after the rows \<open>rows\<close>, and let that exception be what ends the loops of \<open>write_file\<close>
  and \<open>sample_file\<close>. Let \<open>invalid_format_action\<close> be absent, \<open>ignore\<close> or \<open>fail\<close>, the
  values the configuration contract admits. If it is \<open>ignore\<close>, \<open>write_file\<close> returns the
  number of records written so far and \<open>sample_file\<close> the samples taken so far, neither
  raises, and \<open>sample_files\<close> goes on with the next file. For any other value, and when
  the field is absent, the exception propagates from \<open>write_file\<close>, \<open>sample_file\<close> and
  \<open>sample_files\<close>.
\<close>

theorem invalid_format_action_ignore_or_fail:
  assumes it: "get_row_iterator U L C ts (resolve_target_uri L ts fn)
                 = Inr (rows, Some InvalidFormatError)
               \<or> (rows = [] \<and> get_row_iterator U L C ts (resolve_target_uri L ts fn)
                                 = Inl InvalidFormatError)"
    and wl: "write_rows C ts fn schema m snk 0 rows (Some InvalidFormatError)
               = (snk', n, Some InvalidFormatError)"
    and sl: "sample_rows ts rate maxr [] 0 rows (Some InvalidFormatError)
               = (samples, Some InvalidFormatError)"
    and contract: "invalid_format_action ts \<in> {None, Some (py ''ignore''), Some (py ''fail'')}"
  shows "(invalid_format_action ts = Some (py ''ignore'') \<longrightarrow>
            write_file U L C fn ts schema m snk = (snk', Inr n)
            \<and> sample_file U L C ts fn False rate maxr = Inr samples
            \<and> (files_so_far + 1 < max_files \<longrightarrow>
                 sample_files_loop U L C ts False rate maxr max_files to_return files_so_far
                   (\<lparr>key = fn, last_modified = t\<rparr> # target_files)
                 = sample_files_loop U L C ts False rate maxr max_files (to_return @ samples)
                     (files_so_far + 1) target_files))
       \<and> (invalid_format_action ts \<noteq> Some (py ''ignore'') \<longrightarrow>
            write_file U L C fn ts schema m snk = (snk', Inl InvalidFormatError)
            \<and> sample_file U L C ts fn False rate maxr = Inl InvalidFormatError
            \<and> sample_files_loop U L C ts False rate maxr max_files to_return files_so_far
                 (\<lparr>key = fn, last_modified = t\<rparr> # target_files) = Inl InvalidFormatError)"
proof -
  have w: "(case get_row_iterator U L C ts (resolve_target_uri L ts fn) of
              Inl e \<Rightarrow> (snk, 0, Some e)
            | Inr (rows, e) \<Rightarrow> write_rows C ts fn schema m snk 0 rows e)
           = (snk', n, Some InvalidFormatError)"
    using it wl by auto
  have s: "(case get_row_iterator U L C ts (resolve_target_uri L ts fn) of
              Inl e \<Rightarrow> ([], Some e)
            | Inr (rows, e) \<Rightarrow> sample_rows ts rate maxr [] 0 rows e)
           = (samples, Some InvalidFormatError)"
    using it sl by auto
  have wf: "write_file U L C fn ts schema m snk
      = (snk', if ignores_invalid_format U ts then Inr n else Inl InvalidFormatError)"
    by (simp add: write_file_def w)
  have sf: "sample_file U L C ts fn False rate maxr
      = (if ignores_invalid_format U ts then Inr samples else Inl InvalidFormatError)"
    by (simp add: sample_file_def s)
  show ?thesis
    using wf sf ignores_invalid_format_contract [OF contract, of U]
    by simp
qed

theorem invalid_format_action_ignore_or_fail_witness:
  "snd (write_file ucd_excerpt example_library
        (example_collaborators [] ([JObj [(py ''a'', JNum 1)]], Some InvalidFormatError))
        (py ''one.csv'') (sftp_spec\<lparr>invalid_format_action := Some (py ''ignore'')\<rparr>) ()
        (- 1) empty_sink) = Inr 1
   \<and> sample_file ucd_excerpt example_library
        (example_collaborators [] ([JObj [(py ''a'', JNum 1)]], Some InvalidFormatError))
        (sftp_spec\<lparr>invalid_format_action := Some (py ''ignore'')\<rparr>) (py ''one.csv'')
        False 1 10 = Inr [JObj [(py ''a'', JNum 1)]]
   \<and> snd (write_file ucd_excerpt example_library
        (example_collaborators [] ([JObj [(py ''a'', JNum 1)]], Some InvalidFormatError))
        (py ''one.csv'') (sftp_spec\<lparr>invalid_format_action := Some (py ''fail'')\<rparr>) ()
        (- 1) empty_sink) = Inl InvalidFormatError
   \<and> sample_file ucd_excerpt example_library
        (example_collaborators [] ([JObj [(py ''a'', JNum 1)]], Some InvalidFormatError))
        (sftp_spec\<lparr>invalid_format_action := None\<rparr>) (py ''one.csv'')
        False 1 10 = Inl InvalidFormatError"
proof -
  let ?rows = "[JObj [(py ''a'', JNum 1)]]"
  let ?C = "example_collaborators [] (?rows, Some InvalidFormatError)"
  let ?t1 = "sftp_spec\<lparr>invalid_format_action := Some (py ''ignore'')\<rparr>"
  let ?t2 = "sftp_spec\<lparr>invalid_format_action := Some (py ''fail'')\<rparr>"
  let ?t3 = "sftp_spec\<lparr>invalid_format_action := None\<rparr>"
  have sl: "sample_rows ts 1 10 [] 0 ?rows (Some InvalidFormatError)
              = (?rows, Some InvalidFormatError)" for ts
    by (simp add: all_values_none_def)
  have ex: "\<exists>s. write_rows ?C ts (py ''one.csv'') () (- 1) empty_sink 0 ?rows
                  (Some InvalidFormatError) = (s, 1, Some InvalidFormatError)" for ts
    using write_rows_unlimited [of "- 1" empty_sink ?C "()" ?rows "[[(py ''a'', JNum 1)]]"
        ts "py ''one.csv''" 0 "Some InvalidFormatError"]
    by (simp add: empty_sink_def example_collaborators_def)
  from ex [of ?t1] obtain s1 where w1: "write_rows ?C ?t1 (py ''one.csv'') () (- 1) empty_sink 0
         ?rows (Some InvalidFormatError) = (s1, 1, Some InvalidFormatError)"
    by auto
  from ex [of ?t2] obtain s2 where w2: "write_rows ?C ?t2 (py ''one.csv'') () (- 1) empty_sink 0
         ?rows (Some InvalidFormatError) = (s2, 1, Some InvalidFormatError)"
    by auto
  from ex [of ?t3] obtain s3 where w3: "write_rows ?C ?t3 (py ''one.csv'') () (- 1) empty_sink 0
         ?rows (Some InvalidFormatError) = (s3, 1, Some InvalidFormatError)"
    by auto
  have g: "get_row_iterator ucd_excerpt example_library ?C (sftp_spec\<lparr>invalid_format_action := a\<rparr>)
             (resolve_target_uri example_library (sftp_spec\<lparr>invalid_format_action := a\<rparr>)
                (py ''one.csv''))
            = Inr (?rows, Some InvalidFormatError)
         \<or> (?rows = [] \<and> get_row_iterator ucd_excerpt example_library ?C
               (sftp_spec\<lparr>invalid_format_action := a\<rparr>)
               (resolve_target_uri example_library (sftp_spec\<lparr>invalid_format_action := a\<rparr>)
                  (py ''one.csv'')) = Inl InvalidFormatError)" for a
    using sftp_get_row_iterator [where U = ucd_excerpt and body = "[]"
        and s = "(?rows, Some InvalidFormatError)" and a = a and b = None]
    by (simp add: sftp_spec_def example_spec_def)
  have c1: "invalid_format_action ?t1 \<in> {None, Some (py ''ignore''), Some (py ''fail'')}"
    and c2: "invalid_format_action ?t2 \<in> {None, Some (py ''ignore''), Some (py ''fail'')}"
    and c3: "invalid_format_action ?t3 \<in> {None, Some (py ''ignore''), Some (py ''fail'')}"
    by simp_all
  have n2: "invalid_format_action ?t2 \<noteq> Some (py ''ignore'')"
    and n3: "invalid_format_action ?t3 \<noteq> Some (py ''ignore'')"
    by (simp_all add: py_def)
  from invalid_format_action_ignore_or_fail [OF g w1 sl c1, THEN conjunct1]
  have a: "write_file ucd_excerpt example_library ?C (py ''one.csv'') ?t1 () (- 1) empty_sink
           = (s1, Inr 1)
         \<and> sample_file ucd_excerpt example_library ?C ?t1 (py ''one.csv'') False 1 10 = Inr ?rows"
    by simp
  from invalid_format_action_ignore_or_fail [OF g w2 sl c2, THEN conjunct2, THEN mp, OF n2]
  have b: "write_file ucd_excerpt example_library ?C (py ''one.csv'') ?t2 () (- 1) empty_sink
           = (s2, Inl InvalidFormatError)"
    by simp
  from invalid_format_action_ignore_or_fail [OF g w3 sl c3, THEN conjunct2, THEN mp, OF n3]
  have c: "sample_file ucd_excerpt example_library ?C ?t3 (py ''one.csv'') False 1 10
             = Inl InvalidFormatError"
    by simp
  from a b c show ?thesis by simp
qed

section \<open>Sampling\<close>

lemma sample_rows_bound:
  "int (length samples) < maxr \<Longrightarrow>
   int (length (fst (sample_rows ts rate maxr samples cur rows e))) \<le> maxr"
proof (induction rows arbitrary: samples cur)
  case Nil
  then show ?case by simp
next
  case (Cons row rows)
  have a: "int (length (fst (sample_rows ts rate maxr (samples @ [row]) (cur + 1) rows e))) \<le> maxr"
    if "\<not> maxr \<le> int (length (samples @ [row]))"
    using that by (intro Cons.IH) simp
  have b: "int (length (fst (sample_rows ts rate maxr samples c rows e))) \<le> maxr" for c
    using Cons.prems by (intro Cons.IH)
  from Cons.prems have c: "int (length samples) + 1 \<le> maxr" by simp
  show ?case
    using a b c Cons.prems
    by (auto split: sum.splits bool.splits)
qed

lemma pop_undefined_all_length:
  "pop_undefined_all samples = Inr result \<Longrightarrow> length result = length samples"
  by (induction samples arbitrary: result) (auto split: sum.splits)

text \<open>
  C10 (amended). In the loop of \<open>sample_file\<close> with \<open>skip_empty_rows\<close> set, a dictionary
  row whose values are all null, met when \<open>current_row\<close> is a multiple of the sample
  rate, is dropped and the loop goes on with the following rows, the same samples and the
  same \<open>current_row\<close>: the next row is tried at the sampling position. For
  \<open>max_records\<close> of 1 or more, the list that \<open>sample_file\<close> returns has at most
  \<open>max_records\<close> rows, however many rows were read.
\<close>

theorem sample_file_skips_empty_rows:
  "(get_default False (skip_empty_rows ts) \<and> rate \<noteq> 0 \<and> cur mod rate = 0
      \<and> list_all (\<lambda>(k, v). v = JNull) items
    \<longrightarrow> sample_rows ts rate maxr samples cur (JObj items # rows) e
          = sample_rows ts rate maxr samples cur rows e)
   \<and> (1 \<le> maxr \<and> sample_file U L C ts fn iufn rate maxr = Inr result
    \<longrightarrow> int (length result) \<le> maxr)"
proof (intro conjI impI)
  assume "get_default False (skip_empty_rows ts) \<and> rate \<noteq> 0 \<and> cur mod rate = 0
      \<and> list_all (\<lambda>(k, v). v = JNull) items"
  then show "sample_rows ts rate maxr samples cur (JObj items # rows) e
          = sample_rows ts rate maxr samples cur rows e"
    by (simp add: all_values_none_def)
next
  assume a: "1 \<le> maxr \<and> sample_file U L C ts fn iufn rate maxr = Inr result"
  define out where "out = (case get_row_iterator U L C ts (resolve_target_uri L ts fn) of
                 Inl e \<Rightarrow> ([], Some e)
               | Inr (rows, e) \<Rightarrow> sample_rows ts rate maxr [] 0 rows e)"
  have "int (length (fst out)) \<le> maxr"
  proof (cases "get_row_iterator U L C ts (resolve_target_uri L ts fn)")
    case (Inl e)
    with a show ?thesis by (simp add: out_def)
  next
    case (Inr s)
    obtain rows e where "s = (rows, e)" by (cases s)
    with Inr a sample_rows_bound [of "[]" maxr ts rate 0 rows e] show ?thesis
      by (simp add: out_def)
  qed
  moreover from a have "length result = length (fst out)"
    by (auto simp: sample_file_def out_def [symmetric] Let_def
        split: prod.splits option.splits if_splits dest: pop_undefined_all_length)
  ultimately show "int (length result) \<le> maxr" by simp
qed

text \<open>
  With rate 2, the row after a dropped first row is sampled, not the row two places on;
  with rate 1 and a cap of 1, the third row is read and retained after two dropped rows.
\<close>

theorem sample_file_skips_empty_rows_witness:
  "sample_rows (sftp_spec\<lparr>skip_empty_rows := Some True\<rparr>) 2 10 [] 0
      [JObj [(py ''a'', JNull)], JObj [(py ''a'', JNum 1)], JObj [(py ''a'', JNum 2)]] None
    = ([JObj [(py ''a'', JNum 1)]], None)
   \<and> sample_file ucd_excerpt example_library
        (example_collaborators []
           ([JObj [(py ''a'', JNull)], JObj [(py ''a'', JNull)], JObj [(py ''a'', JNum 2)],
             JObj [(py ''a'', JNum 3)]], None))
        (sftp_spec\<lparr>skip_empty_rows := Some True\<rparr>) (py ''one.csv'') False 1 1
      = Inr [JObj [(py ''a'', JNum 2)]]
   \<and> int (length [JObj [(py ''a'', JNum 2)]]) \<le> 1"
proof -
  let ?ts = "sftp_spec\<lparr>skip_empty_rows := Some True\<rparr>"
  let ?C = "example_collaborators []
           ([JObj [(py ''a'', JNull)], JObj [(py ''a'', JNull)], JObj [(py ''a'', JNum 2)],
             JObj [(py ''a'', JNum 3)]], None)"
  have h: "get_default False (skip_empty_rows ?ts) \<and> (2::int) \<noteq> 0 \<and> (0::int) mod 2 = 0
      \<and> list_all (\<lambda>(k, v). v = JNull) [(py ''a'', JNull)]"
    by (simp add: get_default_def)
  have r: "sample_rows ?ts 2 10 [] 0 [JObj [(py ''a'', JNum 1)], JObj [(py ''a'', JNum 2)]] None
             = ([JObj [(py ''a'', JNum 1)]], None)"
    by (simp add: get_default_def all_values_none_def)
  have f: "sample_file ucd_excerpt example_library ?C ?ts (py ''one.csv'') False 1 1
             = Inr [JObj [(py ''a'', JNum 2)]]"
    by code_simp
  have "sample_rows ?ts 2 10 [] 0
      (JObj [(py ''a'', JNull)] # [JObj [(py ''a'', JNum 1)], JObj [(py ''a'', JNum 2)]]) None
    = sample_rows ?ts 2 10 [] 0 [JObj [(py ''a'', JNum 1)], JObj [(py ''a'', JNum 2)]] None"
    by (rule sample_file_skips_empty_rows [THEN conjunct1, THEN mp, OF h])
  with r have a: "sample_rows ?ts 2 10 [] 0
      [JObj [(py ''a'', JNull)], JObj [(py ''a'', JNum 1)], JObj [(py ''a'', JNum 2)]] None
    = ([JObj [(py ''a'', JNum 1)]], None)"
    by (simp only:)
  have b: "int (length [JObj [(py ''a'', JNum 2)]]) \<le> 1"
    by (rule sample_file_skips_empty_rows [THEN conjunct2, THEN mp]) (rule conjI, simp, rule f)
  from a f b show ?thesis by blast
qed

text \<open>
  C10 as stated fails for \<open>max_records = 0\<close>: the cap is tested after the row is
  appended, so one row is retained.
\<close>

theorem sample_file_cap_zero_keeps_a_row:
  "sample_file ucd_excerpt example_library
     (example_collaborators [] ([JObj [(py ''a'', JNum 1)], JObj [(py ''a'', JNum 2)]], None))
     sftp_spec (py ''one.csv'') False 1 0
   = Inr [JObj [(py ''a'', JNum 1)]]
   \<and> \<not> int (length [JObj [(py ''a'', JNum 1)]]) \<le> 0"
  by code_simp

end
